theory Spec2Isabelle
  imports Main
begin

section \<open>The Playwright side, as browser.ts drives it\<close>

text \<open>
  browser.ts talks to Playwright through six asynchronous calls: a launcher's
  \<open>launch\<close>, \<open>browser.newContext\<close>, \<open>context.newPage\<close> and the three \<open>close\<close>
  methods. Each call either resolves or rejects. The model keeps the outcomes the
  environment will give in \<open>script\<close> (\<open>None\<close>: the call resolves, \<open>Some msg\<close>: it rejects
  with that message; an exhausted script resolves), hands out object identities from
  \<open>next_handle\<close>, and records every call in \<open>pw_log\<close>, in program order.
\<close>

datatype launcher = chromium | firefox | webkit

datatype pw_effect =
    PwLaunch launcher bool
  | PwNewContext nat "nat \<times> nat"
  | PwNewPage nat
  | PwClosePage nat
  | PwCloseContext nat
  | PwCloseBrowser nat

record world =
  script :: "string option list"
  next_handle :: nat
  pw_log :: "pw_effect list"

text \<open>A call that creates an object: logged, then rejected or resolved with a fresh handle.\<close>

definition pw_create :: "pw_effect \<Rightarrow> world \<Rightarrow> (string + nat) \<times> world" where
  "pw_create e w =
     (case script w of
        Some msg # rest \<Rightarrow> (Inl msg, w\<lparr>script := rest, pw_log := pw_log w @ [e]\<rparr>)
      | None # rest \<Rightarrow>
          (Inr (next_handle w),
           w\<lparr>script := rest, next_handle := Suc (next_handle w), pw_log := pw_log w @ [e]\<rparr>)
      | [] \<Rightarrow>
          (Inr (next_handle w),
           w\<lparr>next_handle := Suc (next_handle w), pw_log := pw_log w @ [e]\<rparr>))"

text \<open>A call that closes an object: logged, then rejected (\<open>Some msg\<close>) or resolved.\<close>

definition pw_close :: "pw_effect \<Rightarrow> world \<Rightarrow> string option \<times> world" where
  "pw_close e w =
     (case script w of
        r # rest \<Rightarrow> (r, w\<lparr>script := rest, pw_log := pw_log w @ [e]\<rparr>)
      | [] \<Rightarrow> (None, w\<lparr>pw_log := pw_log w @ [e]\<rparr>))"

text \<open>\<^verbatim>\<open>promise.catch(() => {})\<close>: a rejection becomes a normal completion.\<close>

definition swallow :: "string option \<times> world \<Rightarrow> string option \<times> world" where
  "swallow rw = (None, snd rw)"

section \<open>types.ts: the shapes the sources use\<close>

text \<open>
  types.ts is not among the sources; the shapes below are read off the use sites in
  browser.ts, daemon.ts and index.ts. A JSON value is what \<^verbatim>\<open>JSON.parse\<close> returns.
\<close>

datatype json =
    JNull
  | JBool bool
  | JNum int
  | JStr string
  | JArr "json list"
  | JObj "(string \<times> json) list"

text \<open>
  A response carries the correlation id and either a data payload (\<open>success\<close> true) or an
  error message (\<open>success\<close> false), as index.ts reads it.
\<close>

datatype response =
    SuccessResponse string json
  | ErrorResponse string string

fun success :: "response \<Rightarrow> bool" where
  "success (SuccessResponse i d) = True"
| "success (ErrorResponse i e) = False"

fun response_id :: "response \<Rightarrow> string" where
  "response_id (SuccessResponse i d) = i"
| "response_id (ErrorResponse i e) = i"

section \<open>browser.ts: BrowserManager\<close>

record BrowserState =
  browser :: "nat option"
  bcontext :: "nat option"
  page :: "nat option"

text \<open>
  The fields of a launch command that \<open>BrowserManager.launch\<close> reads
  (\<^verbatim>\<open>options.browser\<close>, \<^verbatim>\<open>options.headless\<close>, \<^verbatim>\<open>options.viewport\<close>), each optional, next to
  the two fields every command has. \<open>payload\<close> is the parsed frame with all its fields.
\<close>

record command =
  cmd_id :: string
  action :: string
  opt_browser :: "string option"
  opt_headless :: "bool option"
  opt_viewport :: "(nat \<times> nat) option"
  payload :: json

text \<open>A manager object together with the Playwright world its methods act on.\<close>

type_synonym manager = "BrowserState \<times> world"

definition initial_state :: BrowserState where
  "initial_state = \<lparr>browser = None, bcontext = None, page = None\<rparr>"

definition isLaunched :: "manager \<Rightarrow> bool" where
  "isLaunched m = (browser (fst m) \<noteq> None)"

text \<open>\<open>getPage\<close> throws when no page is present.\<close>

definition getPage :: "manager \<Rightarrow> string + nat" where
  "getPage m =
     (case page (fst m) of
        None \<Rightarrow> Inl ''Browser not launched. Call launch first.''
      | Some p \<Rightarrow> Inr p)"

text \<open>
  \<open>close\<close>, one guarded block at a time. An \<open>await\<close> that rejected would leave the method
  at that point (the result \<open>Some msg\<close>, the field not yet cleared); every close call is
  wrapped in \<open>swallow\<close>, as in the source.
\<close>

definition close_page :: "manager \<Rightarrow> string option \<times> manager" where
  "close_page m =
     (case page (fst m) of
        None \<Rightarrow> (None, m)
      | Some p \<Rightarrow>
          (case swallow (pw_close (PwClosePage p) (snd m)) of
             (Some msg, w) \<Rightarrow> (Some msg, (fst m, w))
           | (None, w) \<Rightarrow> (None, ((fst m)\<lparr>page := None\<rparr>, w))))"

definition close_context :: "manager \<Rightarrow> string option \<times> manager" where
  "close_context m =
     (case bcontext (fst m) of
        None \<Rightarrow> (None, m)
      | Some c \<Rightarrow>
          (case swallow (pw_close (PwCloseContext c) (snd m)) of
             (Some msg, w) \<Rightarrow> (Some msg, (fst m, w))
           | (None, w) \<Rightarrow> (None, ((fst m)\<lparr>bcontext := None\<rparr>, w))))"

definition close_browser :: "manager \<Rightarrow> string option \<times> manager" where
  "close_browser m =
     (case browser (fst m) of
        None \<Rightarrow> (None, m)
      | Some b \<Rightarrow>
          (case swallow (pw_close (PwCloseBrowser b) (snd m)) of
             (Some msg, w) \<Rightarrow> (Some msg, (fst m, w))
           | (None, w) \<Rightarrow> (None, ((fst m)\<lparr>browser := None\<rparr>, w))))"

definition close :: "manager \<Rightarrow> string option \<times> manager" where
  "close m =
     (case close_page m of
        (Some msg, m1) \<Rightarrow> (Some msg, m1)
      | (None, m1) \<Rightarrow>
          (case close_context m1 of
             (Some msg, m2) \<Rightarrow> (Some msg, m2)
           | (None, m2) \<Rightarrow> close_browser m2))"

text \<open>The launcher chosen from \<^verbatim>\<open>options.browser ?? 'chromium'\<close>.\<close>

definition select_launcher :: "command \<Rightarrow> launcher" where
  "select_launcher options =
     (let browserType = (case opt_browser options of None \<Rightarrow> ''chromium'' | Some b \<Rightarrow> b)
      in if browserType = ''firefox'' then firefox
         else if browserType = ''webkit'' then webkit
         else chromium)"

definition headless_of :: "command \<Rightarrow> bool" where
  "headless_of options = (case opt_headless options of None \<Rightarrow> True | Some h \<Rightarrow> h)"

definition viewport_of :: "command \<Rightarrow> nat \<times> nat" where
  "viewport_of options = (case opt_viewport options of None \<Rightarrow> (1280, 720) | Some v \<Rightarrow> v)"

text \<open>
  \<open>launch\<close> after its optional close: three creating calls, each assigned to its field as
  soon as it resolves; a rejection leaves the method with the fields set so far.
\<close>

definition open_browser :: "command \<Rightarrow> manager \<Rightarrow> string option \<times> manager" where
  "open_browser options m =
     (case pw_create (PwLaunch (select_launcher options) (headless_of options)) (snd m) of
        (Inl msg, w1) \<Rightarrow> (Some msg, (fst m, w1))
      | (Inr b, w1) \<Rightarrow>
          (let s1 = (fst m)\<lparr>browser := Some b\<rparr> in
           case pw_create (PwNewContext b (viewport_of options)) w1 of
             (Inl msg, w2) \<Rightarrow> (Some msg, (s1, w2))
           | (Inr c, w2) \<Rightarrow>
               (let s2 = s1\<lparr>bcontext := Some c\<rparr> in
                case pw_create (PwNewPage c) w2 of
                  (Inl msg, w3) \<Rightarrow> (Some msg, (s2, w3))
                | (Inr p, w3) \<Rightarrow> (None, (s2\<lparr>page := Some p\<rparr>, w3)))))"

definition launch :: "command \<Rightarrow> manager \<Rightarrow> string option \<times> manager" where
  "launch options m =
     (if browser (fst m) \<noteq> None
      then (case close m of
              (Some msg, m1) \<Rightarrow> (Some msg, m1)
            | (None, m1) \<Rightarrow> open_browser options m1)
      else open_browser options m)"

text \<open>The Playwright calls \<open>close\<close> makes for a state: one per handle present, page first.\<close>

definition close_calls :: "BrowserState \<Rightarrow> pw_effect list" where
  "close_calls s =
     (case page s of None \<Rightarrow> [] | Some p \<Rightarrow> [PwClosePage p]) @
     (case bcontext s of None \<Rightarrow> [] | Some c \<Rightarrow> [PwCloseContext c]) @
     (case browser s of None \<Rightarrow> [] | Some b \<Rightarrow> [PwCloseBrowser b])"

section \<open>The file system and the process table, as daemon.ts uses them\<close>

text \<open>
  A path holds a regular file with its text, or a listening socket with the process id of
  its owner. \<open>os.tmpdir()\<close> is taken to be \<^verbatim>\<open>/tmp\<close>. The calls of \<open>fs\<close> raise where Node does
  on this file system: unlinking or reading a missing path, reading a socket. Failures
  from permissions, and other processes changing files between two calls, are not
  modelled.
\<close>

datatype node = Regular string | Socket nat

type_synonym fs = "string \<Rightarrow> node option"

definition SOCKET_PATH :: string where
  "SOCKET_PATH = ''/tmp/veb.sock''"

definition PID_FILE :: string where
  "PID_FILE = ''/tmp/veb.pid''"

definition getSocketPath :: string where
  "getSocketPath = SOCKET_PATH"

definition getPidFile :: string where
  "getPidFile = PID_FILE"

definition existsSync :: "fs \<Rightarrow> string \<Rightarrow> bool" where
  "existsSync f p = (f p \<noteq> None)"

definition unlinkSync :: "fs \<Rightarrow> string \<Rightarrow> string + fs" where
  "unlinkSync f p = (case f p of None \<Rightarrow> Inl ''ENOENT'' | Some x \<Rightarrow> Inr (f(p := None)))"

definition readFileSync :: "fs \<Rightarrow> string \<Rightarrow> string + string" where
  "readFileSync f p =
     (case f p of
        None \<Rightarrow> Inl ''ENOENT''
      | Some (Socket owner) \<Rightarrow> Inl ''ENXIO''
      | Some (Regular txt) \<Rightarrow> Inr txt)"

definition writeFileSync :: "fs \<Rightarrow> string \<Rightarrow> string \<Rightarrow> fs" where
  "writeFileSync f p txt = f(p \<mapsto> Regular txt)"

text \<open>
  Whitespace as \<open>trim\<close> and \<open>parseInt\<close> skip it. A character of the model is a code
  unit below 256, so of the white space and line terminators of ECMAScript these are
  there: space, tab, line feed, vertical tab, form feed, carriage return and the
  no-break space U+00A0.
\<close>

definition is_space :: "char \<Rightarrow> bool" where
  "is_space c =
     (c \<in> set [CHR '' '', CHR 0x09, CHR 0x0A, CHR 0x0B, CHR 0x0C, CHR 0x0D, CHR 0xA0])"

definition trim :: "string \<Rightarrow> string" where
  "trim s = rev (dropWhile is_space (rev (dropWhile is_space s)))"

definition is_digit :: "char \<Rightarrow> bool" where
  "is_digit c = (c \<in> set ''0123456789'')"

definition digit_val :: "char \<Rightarrow> nat" where
  "digit_val c =
     (case map_of
        [(CHR ''0'', 0), (CHR ''1'', 1), (CHR ''2'', 2), (CHR ''3'', 3), (CHR ''4'', 4),
         (CHR ''5'', 5), (CHR ''6'', 6), (CHR ''7'', 7), (CHR ''8'', 8), (CHR ''9'', 9)] c of
        None \<Rightarrow> 0
      | Some v \<Rightarrow> v)"

text \<open>
  \<^verbatim>\<open>parseInt(s, 10)\<close>: leading whitespace, an optional sign, then the longest run of
  decimal digits; \<open>None\<close> is NaN (no digit there). Integers are exact here.
\<close>

definition parseInt :: "string \<Rightarrow> int option" where
  "parseInt s =
     (let t = dropWhile is_space s;
          negative = (case t of [] \<Rightarrow> False | c # r \<Rightarrow> c = CHR ''-'');
          u = (case t of [] \<Rightarrow> [] | c # r \<Rightarrow> if c = CHR ''-'' \<or> c = CHR ''+'' then r else t);
          ds = takeWhile is_digit u
      in if ds = [] then None
         else Some ((if negative then - 1 else 1) *
                    int (foldl (\<lambda>a c. 10 * a + digit_val c) 0 ds)))"

text \<open>\<^verbatim>\<open>n.toString()\<close> for a process id.\<close>

fun decimal :: "nat \<Rightarrow> string" where
  "decimal n =
     (if n < 10 then [''0123456789'' ! n]
      else decimal (n div 10) @ [''0123456789'' ! (n mod 10)])"

text \<open>
  \<^verbatim>\<open>process.kill(pid, 0)\<close>, the existence probe: \<open>True\<close> when it returns, \<open>False\<close> when it
  throws. \<open>procs\<close> lists the process ids for which the probe succeeds; NaN is refused.
\<close>

definition kill0 :: "int list \<Rightarrow> int option \<Rightarrow> bool" where
  "kill0 procs p = (case p of None \<Rightarrow> False | Some n \<Rightarrow> n \<in> set procs)"

section \<open>daemon.ts: the instance marker\<close>

text \<open>The body of the \<open>try\<close> runs both guarded unlinks; a raise skips what is left of it.\<close>

definition cleanupSocket :: "fs \<Rightarrow> fs" where
  "cleanupSocket f =
     (case (if existsSync f SOCKET_PATH then unlinkSync f SOCKET_PATH else Inr f) of
        Inl err \<Rightarrow> f
      | Inr f1 \<Rightarrow>
          (case (if existsSync f1 PID_FILE then unlinkSync f1 PID_FILE else Inr f1) of
             Inl err \<Rightarrow> f1
           | Inr f2 \<Rightarrow> f2))"

definition isDaemonRunning :: "int list \<Rightarrow> fs \<Rightarrow> bool \<times> fs" where
  "isDaemonRunning procs f =
     (if \<not> existsSync f PID_FILE then (False, f)
      else (case readFileSync f PID_FILE of
              Inl err \<Rightarrow> (False, cleanupSocket f)
            | Inr txt \<Rightarrow>
                (if kill0 procs (parseInt (trim txt)) then (True, f)
                 else (False, cleanupSocket f))))"

section \<open>daemon.ts: the connection handler\<close>

text \<open>
  What the daemon does to the outside, in program order: socket writes (with the
  connection), the timer it sets, and the steps of a shutdown.
\<close>

datatype io_effect =
    SocketWrite nat string
  | SetTimeout nat
  | ServerClose
  | CleanupSocket
  | ConsoleError string
  | Exit int

text \<open>
  The functions daemon.ts imports from protocol.ts and actions.ts, which are not among
  the sources. The handler is modelled for any such functions. \<open>executeCommand\<close> receives
  the manager and may change it; it returns a response or throws (\<open>Inl\<close>).
\<close>

datatype parse_result =
    ParseSuccess command
  | ParseFailure "string option" string

record protocol =
  parseCommand :: "string \<Rightarrow> parse_result"
  serializeResponse :: "response \<Rightarrow> string"
  errorResponse :: "string \<Rightarrow> string \<Rightarrow> response"
  executeCommand :: "command \<Rightarrow> manager \<Rightarrow> (string + response) \<times> manager"

text \<open>
  The state of one daemon process: the closure variables of \<open>startDaemon\<close> (\<open>manager\<close> is
  its \<open>browser\<close>, \<open>shuttingDown\<close>, one \<open>buffer\<close> per connection), the file system it sees,
  the timers set and not yet fired, whether \<open>shutdown\<close> is suspended at its \<open>await\<close>,
  whether the server listens, and the exit status once the process has exited.
\<close>

record daemon =
  pid :: nat
  files :: fs
  manager :: manager
  shuttingDown :: bool
  buffers :: "nat \<Rightarrow> string"
  timers :: nat
  awaiting :: bool
  listening :: bool
  exited :: "int option"
  trace :: "io_effect list"

datatype flow = Continue | Return

text \<open>\<^verbatim>\<open>socket.write(serializeResponse(resp) + '\n')\<close> on connection \<open>c\<close>.\<close>

definition socket_write :: "protocol \<Rightarrow> nat \<Rightarrow> response \<Rightarrow> daemon \<Rightarrow> daemon" where
  "socket_write P c resp d =
     d\<lparr>trace := trace d @ [SocketWrite c (serializeResponse P resp @ [CHR 0x0A])]\<rparr>"

text \<open>The options of the implicit launch: \<^verbatim>\<open>{ id: 'auto', action: 'launch', headless: true }\<close>.\<close>

definition auto_launch :: command where
  "auto_launch =
     \<lparr>cmd_id = ''auto'', action = ''launch'', opt_browser = None, opt_headless = Some True,
      opt_viewport = None, payload = JNull\<rparr>"

text \<open>The close branch after its write: the guarded timer, 100 milliseconds.\<close>

definition schedule_shutdown :: "daemon \<Rightarrow> daemon" where
  "schedule_shutdown d =
     (if \<not> shuttingDown d
      then d\<lparr>shuttingDown := True, timers := Suc (timers d),
             trace := trace d @ [SetTimeout 100]\<rparr>
      else d)"

text \<open>
  The body of the loop for one non-blank line: the \<open>try\<close> block with its \<open>catch\<close>. The
  result says whether the loop goes on (\<open>continue\<close>, or the end of the body) or the handler
  returns.
\<close>

definition process_line :: "protocol \<Rightarrow> nat \<Rightarrow> string \<Rightarrow> daemon \<Rightarrow> flow \<times> daemon" where
  "process_line P c line d =
     (case parseCommand P line of
        ParseFailure i err \<Rightarrow>
          (Continue,
           socket_write P c
             (errorResponse P (case i of None \<Rightarrow> ''unknown'' | Some x \<Rightarrow> x) err) d)
      | ParseSuccess cmd \<Rightarrow>
          (case (if \<not> isLaunched (manager d) \<and> action cmd \<noteq> ''launch''
                    \<and> action cmd \<noteq> ''close''
                 then launch auto_launch (manager d)
                 else (None, manager d)) of
             (Some msg, m1) \<Rightarrow>
               (Continue, socket_write P c (errorResponse P ''error'' msg) (d\<lparr>manager := m1\<rparr>))
           | (None, m1) \<Rightarrow>
               (if action cmd = ''close''
                then (case executeCommand P cmd m1 of
                        (Inl msg, m2) \<Rightarrow>
                          (Continue,
                           socket_write P c (errorResponse P ''error'' msg) (d\<lparr>manager := m2\<rparr>))
                      | (Inr resp, m2) \<Rightarrow>
                          (Return,
                           schedule_shutdown (socket_write P c resp (d\<lparr>manager := m2\<rparr>))))
                else (case executeCommand P cmd m1 of
                        (Inl msg, m2) \<Rightarrow>
                          (Continue,
                           socket_write P c (errorResponse P ''error'' msg) (d\<lparr>manager := m2\<rparr>))
                      | (Inr resp, m2) \<Rightarrow>
                          (Continue, socket_write P c resp (d\<lparr>manager := m2\<rparr>))))))"

text \<open>
  \<^verbatim>\<open>buffer.indexOf('\n')\<close> when the buffer has a line feed, and the two substrings cut there.
\<close>

definition newlineIdx :: "string \<Rightarrow> nat" where
  "newlineIdx buffer = length (takeWhile (\<lambda>x. x \<noteq> CHR 0x0A) buffer)"

definition blank :: "string \<Rightarrow> bool" where
  "blank line = (trim line = [])"

text \<open>The \<open>while\<close> loop of the data handler, on the buffer of the connection.\<close>

function drain :: "protocol \<Rightarrow> nat \<Rightarrow> string \<Rightarrow> daemon \<Rightarrow> string \<times> daemon" where
  "drain P c buffer d =
     (if CHR 0x0A \<in> set buffer
      then (if blank (take (newlineIdx buffer) buffer)
            then drain P c (drop (Suc (newlineIdx buffer)) buffer) d
            else (case process_line P c (take (newlineIdx buffer) buffer) d of
                    (Continue, d1) \<Rightarrow> drain P c (drop (Suc (newlineIdx buffer)) buffer) d1
                  | (Return, d1) \<Rightarrow> (drop (Suc (newlineIdx buffer)) buffer, d1)))
      else (buffer, d))"
  by pat_completeness auto
termination
  by (relation "measure (\<lambda>(P, c, buffer, d). length buffer)")
     (auto dest: length_pos_if_in_set)

text \<open>
  The data handler when no other event is handled while it runs: append the chunk, then
  run the loop to its end, every promise it awaits settling at once. The handler is an
  \<open>async\<close> function; the section on overlapping handlers below cuts it at its awaits.
  A chunk is the text that \<^verbatim>\<open>data.toString()\<close> gives for it; line 70 decodes each read
  on its own, so a read that ends inside a multi-byte character is outside the model.
\<close>

definition on_data :: "protocol \<Rightarrow> nat \<Rightarrow> string \<times> daemon \<Rightarrow> string \<Rightarrow> string \<times> daemon" where
  "on_data P c bd chunk = drain P c (fst bd @ chunk) (snd bd)"

section \<open>daemon.ts: the supervisor\<close>

text \<open>The timer's callback, and the handler of the server's \<open>error\<close> event.\<close>

definition timer_callback :: "daemon \<Rightarrow> daemon" where
  "timer_callback d =
     d\<lparr>listening := False, files := cleanupSocket (files d), exited := Some 0,
       trace := trace d @ [ServerClose, CleanupSocket, Exit 0]\<rparr>"

definition server_error :: "daemon \<Rightarrow> daemon" where
  "server_error d =
     d\<lparr>files := cleanupSocket (files d), exited := Some 1,
       trace := trace d @ [ConsoleError ''Server error:'', CleanupSocket, Exit 1]\<rparr>"

text \<open>
  \<open>shutdown\<close>, the signal handler, up to its \<open>await\<close> (the guard, the flag, the call of
  \<open>browser.close\<close>), and its continuation. Other events may run in between.
\<close>

definition shutdown :: "daemon \<Rightarrow> daemon" where
  "shutdown d =
     (if shuttingDown d then d
      else (case close (manager d) of
              (Some msg, m) \<Rightarrow> d\<lparr>manager := m, shuttingDown := True\<rparr>
            | (None, m) \<Rightarrow> d\<lparr>manager := m, shuttingDown := True, awaiting := True\<rparr>))"

definition shutdown_resume :: "daemon \<Rightarrow> daemon" where
  "shutdown_resume d =
     d\<lparr>awaiting := False, listening := False, files := cleanupSocket (files d),
       exited := Some 0, trace := trace d @ [ServerClose, CleanupSocket, Exit 0]\<rparr>"

text \<open>
  \<open>startDaemon\<close> for the process \<open>p\<close>, on the file system \<open>f\<close>, with the Playwright outcomes
  \<open>sc\<close> ahead: the cleanup, the fresh manager and flag, the marker, then the bind, which
  fails when the socket path exists.
\<close>

definition startDaemon :: "nat \<Rightarrow> fs \<Rightarrow> string option list \<Rightarrow> daemon" where
  "startDaemon p f sc =
     (let f1 = cleanupSocket f;
          f2 = writeFileSync f1 PID_FILE (decimal p);
          d = \<lparr>pid = p, files = f2,
               manager = (initial_state, \<lparr>script = sc, next_handle = 0, pw_log = []\<rparr>),
               shuttingDown = False, buffers = (\<lambda>c. []), timers = 0, awaiting = False,
               listening = False, exited = None, trace = [CleanupSocket]\<rparr>
      in if existsSync f2 SOCKET_PATH then server_error d
         else d\<lparr>files := f2(SOCKET_PATH \<mapsto> Socket p), listening := True\<rparr>)"

text \<open>
  The event loop for data handlers that do not overlap: the handler of a data event
  runs to its end before the next event is taken; \<open>shutdown\<close> is cut at its \<open>await\<close>.
  Nothing runs in a process that has exited. The loop in which data handlers are cut at
  their awaits as well is \<open>astep\<close>, below.
\<close>

datatype event = Data nat string | TimerFires | Signal | ShutdownResumes

definition step :: "protocol \<Rightarrow> daemon \<Rightarrow> event \<Rightarrow> daemon" where
  "step P d e =
     (if exited d \<noteq> None then d
      else (case e of
              Data c chunk \<Rightarrow>
                (case on_data P c (buffers d c, d) chunk of
                   (b, d1) \<Rightarrow> d1\<lparr>buffers := (buffers d1)(c := b)\<rparr>)
            | TimerFires \<Rightarrow>
                (if timers d = 0 then d else timer_callback (d\<lparr>timers := timers d - 1\<rparr>))
            | Signal \<Rightarrow> shutdown d
            | ShutdownResumes \<Rightarrow> (if awaiting d then shutdown_resume d else d)))"

definition run :: "protocol \<Rightarrow> daemon \<Rightarrow> event list \<Rightarrow> daemon" where
  "run P d es = foldl (step P) d es"

declare drain.simps [simp del]

section \<open>daemon.ts: data handlers that overlap\<close>

text \<open>
  The data handler is an \<open>async\<close> function. A call of it runs until it reaches an
  \<open>await\<close> on a promise that is still pending, and goes on when that promise settles;
  in between, the event loop handles other events, among them later data events of the
  same connection, whose handlers share the buffer of the connection, the manager and
  the flag with the suspended one. \<open>drain\<close> and \<open>step\<close> above are the handler with every
  promise settling before the next event; what follows cuts the handler at its awaits.

  The awaits of the handler are the three creating calls inside \<open>browser.launch\<close>
  (browser.ts lines 63, 68 and 73), reached from line 91 of daemon.ts, and
  \<open>executeCommand\<close> (lines 96 and 110). A suspended handler is a task: the await it
  waits at, its connection, the command it is handling and, for a Playwright call, the
  outcome that call will have. actions.ts is not among the sources: the call of
  \<open>executeCommand\<close> is one await, whose effect on the manager and whose result are
  taken at the moment it settles.
\<close>

datatype task =
    AwaitBrowser nat command "string + nat"
  | AwaitContext nat command "string + nat"
  | AwaitPage nat command "string + nat"
  | AwaitExecute nat command

fun task_conn :: "task \<Rightarrow> nat" where
  "task_conn (AwaitBrowser c cmd out) = c"
| "task_conn (AwaitContext c cmd out) = c"
| "task_conn (AwaitPage c cmd out) = c"
| "task_conn (AwaitExecute c cmd) = c"

fun task_cmd :: "task \<Rightarrow> command" where
  "task_cmd (AwaitBrowser c cmd out) = cmd"
| "task_cmd (AwaitContext c cmd out) = cmd"
| "task_cmd (AwaitPage c cmd out) = cmd"
| "task_cmd (AwaitExecute c cmd) = cmd"

text \<open>
  Where a stretch of the handler ends: at an await, at the end of the body of the loop
  (or a \<open>continue\<close>), or at the \<open>return\<close> of the close branch.
\<close>

datatype progress = Suspended task | Proceeds | Returned

text \<open>
  The body of the loop for one non-blank line, up to its first await. When the guard of
  line 90 holds, \<open>browser.launch\<close> is entered with the options of \<open>auto_launch\<close>: the
  guard has just found no browser, so \<open>launch\<close> skips its own close (line 49) and calls
  the launcher; \<open>state.browser\<close> stays null until that call has settled. Otherwise the
  handler goes to \<open>executeCommand\<close>, in the close branch or after it.
\<close>

definition begin_line :: "protocol \<Rightarrow> nat \<Rightarrow> string \<Rightarrow> daemon \<Rightarrow> progress \<times> daemon" where
  "begin_line P c line d =
     (case parseCommand P line of
        ParseFailure i err \<Rightarrow>
          (Proceeds,
           socket_write P c
             (errorResponse P (case i of None \<Rightarrow> ''unknown'' | Some x \<Rightarrow> x) err) d)
      | ParseSuccess cmd \<Rightarrow>
          (if \<not> isLaunched (manager d) \<and> action cmd \<noteq> ''launch''
                \<and> action cmd \<noteq> ''close''
           then (case pw_create
                        (PwLaunch (select_launcher auto_launch) (headless_of auto_launch))
                        (snd (manager d)) of
                   (out, w) \<Rightarrow>
                     (Suspended (AwaitBrowser c cmd out), d\<lparr>manager := (fst (manager d), w)\<rparr>))
           else (Suspended (AwaitExecute c cmd), d)))"

text \<open>
  A suspended handler going on when its promise has settled, up to its next await. A
  rejection is thrown at the await and lands in the \<open>catch\<close> of the loop's body, which
  writes the error response. A resolved creating call is assigned to its field, and
  \<open>launch\<close> makes its next call; after the last one the handler is at \<open>executeCommand\<close>.
  When \<open>executeCommand\<close> has settled the response is written, and the close branch sets
  the guarded timer and returns.
\<close>

definition resume :: "protocol \<Rightarrow> task \<Rightarrow> daemon \<Rightarrow> progress \<times> daemon" where
  "resume P t d =
     (case t of
        AwaitBrowser c cmd out \<Rightarrow>
          (case out of
             Inl msg \<Rightarrow> (Proceeds, socket_write P c (errorResponse P ''error'' msg) d)
           | Inr b \<Rightarrow>
               (case pw_create (PwNewContext b (viewport_of auto_launch)) (snd (manager d)) of
                  (out', w) \<Rightarrow>
                    (Suspended (AwaitContext c cmd out'),
                     d\<lparr>manager := ((fst (manager d))\<lparr>browser := Some b\<rparr>, w)\<rparr>)))
      | AwaitContext c cmd out \<Rightarrow>
          (case out of
             Inl msg \<Rightarrow> (Proceeds, socket_write P c (errorResponse P ''error'' msg) d)
           | Inr x \<Rightarrow>
               (case pw_create (PwNewPage x) (snd (manager d)) of
                  (out', w) \<Rightarrow>
                    (Suspended (AwaitPage c cmd out'),
                     d\<lparr>manager := ((fst (manager d))\<lparr>bcontext := Some x\<rparr>, w)\<rparr>)))
      | AwaitPage c cmd out \<Rightarrow>
          (case out of
             Inl msg \<Rightarrow> (Proceeds, socket_write P c (errorResponse P ''error'' msg) d)
           | Inr p \<Rightarrow>
               (Suspended (AwaitExecute c cmd),
                d\<lparr>manager := ((fst (manager d))\<lparr>page := Some p\<rparr>, snd (manager d))\<rparr>))
      | AwaitExecute c cmd \<Rightarrow>
          (case executeCommand P cmd (manager d) of
             (Inl msg, m) \<Rightarrow>
               (Proceeds, socket_write P c (errorResponse P ''error'' msg) (d\<lparr>manager := m\<rparr>))
           | (Inr resp, m) \<Rightarrow>
               (if action cmd = ''close''
                then (Returned, schedule_shutdown (socket_write P c resp (d\<lparr>manager := m\<rparr>)))
                else (Proceeds, socket_write P c resp (d\<lparr>manager := m\<rparr>)))))"

text \<open>
  The daemon with its suspended handlers. Two fields only observe: \<open>received\<close> is the text
  that has arrived on each connection, \<open>dispatched\<close> lists, in the order of time, the
  non-blank lines given to \<open>parseCommand\<close>, each with its connection.
\<close>

record loop =
  core :: daemon
  tasks :: "task list"
  received :: "nat \<Rightarrow> string"
  dispatched :: "(nat \<times> string) list"

text \<open>
  The \<open>while\<close> loop, from a test of its condition to the next await or to the end of
  the handler. The result is the buffer as this stretch leaves it. Every line taken
  from the buffer and not blank is noted in \<open>dispatched\<close>. (The first stretch of a body
  never ends at the \<open>return\<close>, which comes after an await.)
\<close>

function adrain :: "protocol \<Rightarrow> nat \<Rightarrow> string \<Rightarrow> loop \<Rightarrow> string \<times> loop" where
  "adrain P c buffer L =
     (if CHR 0x0A \<in> set buffer
      then (if blank (take (newlineIdx buffer) buffer)
            then adrain P c (drop (Suc (newlineIdx buffer)) buffer) L
            else (case begin_line P c (take (newlineIdx buffer) buffer) (core L) of
                    (Suspended t, d1) \<Rightarrow>
                      (drop (Suc (newlineIdx buffer)) buffer,
                       L\<lparr>core := d1, tasks := tasks L @ [t],
                         dispatched :=
                           dispatched L @ [(c, take (newlineIdx buffer) buffer)]\<rparr>)
                  | (Proceeds, d1) \<Rightarrow>
                      adrain P c (drop (Suc (newlineIdx buffer)) buffer)
                        (L\<lparr>core := d1,
                           dispatched :=
                             dispatched L @ [(c, take (newlineIdx buffer) buffer)]\<rparr>)
                  | (Returned, d1) \<Rightarrow>
                      (drop (Suc (newlineIdx buffer)) buffer,
                       L\<lparr>core := d1,
                         dispatched :=
                           dispatched L @ [(c, take (newlineIdx buffer) buffer)]\<rparr>)))
      else (buffer, L))"
  by pat_completeness auto
termination
  by (relation "measure (\<lambda>(P, c, buffer, L). length buffer)")
     (auto dest: length_pos_if_in_set)

text \<open>
  The loop run on the buffer of connection \<open>c\<close> as it stands, the buffer left as the
  loop leaves it: what a handler does when it starts, and when it comes back to the
  condition of the loop after an await.
\<close>

definition go_on :: "protocol \<Rightarrow> nat \<Rightarrow> loop \<Rightarrow> loop" where
  "go_on P c L =
     (case adrain P c (buffers (core L) c) L of
        (b, L1) \<Rightarrow> L1\<lparr>core := (core L1)\<lparr>buffers := (buffers (core L1))(c := b)\<rparr>\<rparr>)"

text \<open>
  The events of the loop: a chunk arrives on a connection (its text is appended to the
  buffer and a new handler starts), the promise that the task at a position waits for
  settles, the shutdown timer fires, a signal arrives, the suspended \<open>shutdown\<close> goes on.
  Nothing runs in a process that has exited; its suspended handlers never go on.
\<close>

datatype async_event = Arrives nat string | Settles nat | Fires | Interrupt | Resumes

definition astep :: "protocol \<Rightarrow> loop \<Rightarrow> async_event \<Rightarrow> loop" where
  "astep P L e =
     (if exited (core L) \<noteq> None then L
      else (case e of
              Arrives c chunk \<Rightarrow>
                go_on P c
                  (L\<lparr>core :=
                       (core L)\<lparr>buffers := (buffers (core L))(c := buffers (core L) c @ chunk)\<rparr>,
                     received := (received L)(c := received L c @ chunk)\<rparr>)
            | Settles i \<Rightarrow>
                (if i < length (tasks L)
                 then (case resume P (tasks L ! i) (core L) of
                         (Suspended t, d1) \<Rightarrow> L\<lparr>core := d1, tasks := (tasks L)[i := t]\<rparr>
                       | (Proceeds, d1) \<Rightarrow>
                           go_on P (task_conn (tasks L ! i))
                             (L\<lparr>core := d1, tasks := take i (tasks L) @ drop (Suc i) (tasks L)\<rparr>)
                       | (Returned, d1) \<Rightarrow>
                           L\<lparr>core := d1, tasks := take i (tasks L) @ drop (Suc i) (tasks L)\<rparr>)
                 else L)
            | Fires \<Rightarrow> L\<lparr>core := step P (core L) TimerFires\<rparr>
            | Interrupt \<Rightarrow> L\<lparr>core := step P (core L) Signal\<rparr>
            | Resumes \<Rightarrow> L\<lparr>core := step P (core L) ShutdownResumes\<rparr>))"

definition arun :: "protocol \<Rightarrow> loop \<Rightarrow> async_event list \<Rightarrow> loop" where
  "arun P L es = foldl (astep P) L es"

text \<open>A daemon with no handler suspended and nothing received yet.\<close>

definition start_loop :: "daemon \<Rightarrow> loop" where
  "start_loop d = \<lparr>core = d, tasks = [], received = (\<lambda>c. []), dispatched = []\<rparr>"

declare adrain.simps [simp del]

section \<open>The lines of a stream\<close>

text \<open>
  The complete lines of a byte stream (each ended by a line feed, the line feed
  removed) and what follows the last line feed; \<open>join\<close> puts lines and a tail together
  again.
\<close>

fun split_stream :: "string \<Rightarrow> string list \<times> string" where
  "split_stream [] = ([], [])"
| "split_stream (x # xs) =
     (case split_stream xs of
        (ls, r) \<Rightarrow>
          (if x = CHR 0x0A then ([] # ls, r)
           else (case ls of [] \<Rightarrow> ([], x # r) | l # ls' \<Rightarrow> ((x # l) # ls', r))))"

definition frames :: "string \<Rightarrow> string list" where
  "frames s = fst (split_stream s)"

definition residue :: "string \<Rightarrow> string" where
  "residue s = snd (split_stream s)"


text \<open>
  The lines of connection \<open>c\<close> that were given to \<open>parseCommand\<close>, in the order of time.
\<close>

definition dispatched_on :: "nat \<Rightarrow> loop \<Rightarrow> string list" where
  "dispatched_on c L = map snd (filter (\<lambda>x. fst x = c) (dispatched L))"

definition is_close :: "protocol \<Rightarrow> string \<Rightarrow> bool" where
  "is_close P l =
     (case parseCommand P l of
        ParseSuccess cmd \<Rightarrow> action cmd = ''close''
      | ParseFailure i err \<Rightarrow> False)"


text \<open>The steps of the trace that belong to start-up cleanup and to shutdown.\<close>

fun is_lifecycle :: "io_effect \<Rightarrow> bool" where
  "is_lifecycle ServerClose = True"
| "is_lifecycle CleanupSocket = True"
| "is_lifecycle (Exit n) = True"
| "is_lifecycle (ConsoleError msg) = False"
| "is_lifecycle (SocketWrite c s) = False"
| "is_lifecycle (SetTimeout n) = False"

definition lifecycle :: "io_effect list \<Rightarrow> io_effect list" where
  "lifecycle t = filter is_lifecycle t"

text \<open>Shutdowns that are set up and have not run yet: timers, and a suspended \<open>shutdown\<close>.\<close>

definition pending :: "daemon \<Rightarrow> nat" where
  "pending d = timers d + (if awaiting d then 1 else 0)"

section \<open>protocol.ts and actions.ts, from the specification\<close>

text \<open>
  Modelled from the spec: \<open>errorResponse\<close> of protocol.ts, which is not among the sources
  (section 4.1, \<open>makeError(id, message)\<close>: a well-formed failure Response).
\<close>

definition errorResponse_spec :: "string \<Rightarrow> string \<Rightarrow> response" where
  "errorResponse_spec i msg = ErrorResponse i msg"

text \<open>
  Modelled from the spec: \<open>serializeResponse\<close> of protocol.ts, which is not among the
  sources (sections 4.1 and 6: the response frame \<^verbatim>\<open>{id, success, data?, error?}\<close> as
  one line of JSON text). \<open>stringify\<close> stands for \<^verbatim>\<open>JSON.stringify\<close>.
\<close>

definition serializeResponse_spec :: "(json \<Rightarrow> string) \<Rightarrow> response \<Rightarrow> string" where
  "serializeResponse_spec stringify r =
     stringify
       (case r of
          SuccessResponse i d \<Rightarrow> JObj [(''id'', JStr i), (''success'', JBool True), (''data'', d)]
        | ErrorResponse i e \<Rightarrow>
            JObj [(''id'', JStr i), (''success'', JBool False), (''error'', JStr e)])"

text \<open>
  Modelled from the spec: the action names \<open>parseCommand\<close> recognises (section 3; index.ts
  sends all of them but launch), and the reading of an optional field of a parsed frame.
\<close>

definition known_actions :: "string list" where
  "known_actions =
     [''navigate'', ''click'', ''type'', ''press'', ''wait'', ''screenshot'', ''snapshot'',
      ''content'', ''evaluate'', ''scroll'', ''hover'', ''select'', ''launch'', ''close'']"

definition field_string :: "(string \<times> json) list \<Rightarrow> string \<Rightarrow> string option" where
  "field_string members k = (case map_of members k of Some (JStr x) \<Rightarrow> Some x | _ \<Rightarrow> None)"

definition field_bool :: "(string \<times> json) list \<Rightarrow> string \<Rightarrow> bool option" where
  "field_bool members k = (case map_of members k of Some (JBool b) \<Rightarrow> Some b | _ \<Rightarrow> None)"

definition field_viewport :: "(string \<times> json) list \<Rightarrow> (nat \<times> nat) option" where
  "field_viewport members =
     (case map_of members ''viewport'' of
        Some (JObj v) \<Rightarrow>
          (case (map_of v ''width'', map_of v ''height'') of
             (Some (JNum w), Some (JNum h)) \<Rightarrow> Some (nat w, nat h)
           | _ \<Rightarrow> None)
      | _ \<Rightarrow> None)"

text \<open>
  Modelled from the spec: \<open>parseCommand\<close> of protocol.ts, which is not among the sources
  (section 4.1, \<open>decode\<close>): text that is not well-formed fails with MalformedPayload and
  no id; a missing or unrecognised action fails with UnknownAction, a missing id with
  MissingId, each with the id where one can be recovered. \<open>parse\<close> stands for
  \<^verbatim>\<open>JSON.parse\<close>, \<open>None\<close> where it throws.
\<close>

definition parseCommand_spec :: "(string \<Rightarrow> json option) \<Rightarrow> string \<Rightarrow> parse_result" where
  "parseCommand_spec parse line =
     (case parse line of
        None \<Rightarrow> ParseFailure None ''MalformedPayload: the frame is not well-formed JSON''
      | Some (JObj members) \<Rightarrow>
          (case field_string members ''action'' of
             None \<Rightarrow> ParseFailure (field_string members ''id'') ''UnknownAction''
           | Some a \<Rightarrow>
               (if a \<in> set known_actions
                then (case field_string members ''id'' of
                        None \<Rightarrow> ParseFailure None ''MissingId''
                      | Some i \<Rightarrow>
                          ParseSuccess
                            \<lparr>cmd_id = i, action = a,
                             opt_browser = field_string members ''browser'',
                             opt_headless = field_bool members ''headless'',
                             opt_viewport = field_viewport members,
                             payload = JObj members\<rparr>)
                else ParseFailure (field_string members ''id'') ''UnknownAction''))
      | Some other \<Rightarrow> ParseFailure None ''MalformedPayload: the frame is not an object'')"

text \<open>
  Modelled from the spec: \<open>executeCommand\<close> of actions.ts, which is not among the sources
  (section 4.2, items 2 to 4): launch acquires with the supplied options and answers with
  a success marker; close releases and answers with a success marker; any other action
  goes to the execution capability \<open>execute\<close> with the command and the resource state,
  a failure becomes an error Response and the resource state is left as it is. The
  markers \<open>launched\<close> and \<open>closed\<close> are the ones index.ts looks for.
\<close>

definition executeCommand_spec ::
  "(command \<Rightarrow> BrowserState \<Rightarrow> string + json) \<Rightarrow> command \<Rightarrow> manager
     \<Rightarrow> (string + response) \<times> manager" where
  "executeCommand_spec execute cmd m =
     (if action cmd = ''launch''
      then (case launch cmd m of
              (Some msg, m1) \<Rightarrow> (Inr (errorResponse_spec (cmd_id cmd) msg), m1)
            | (None, m1) \<Rightarrow>
                (Inr (SuccessResponse (cmd_id cmd) (JObj [(''launched'', JBool True)])), m1))
      else if action cmd = ''close''
      then (case close m of
              (Some msg, m1) \<Rightarrow> (Inr (errorResponse_spec (cmd_id cmd) msg), m1)
            | (None, m1) \<Rightarrow>
                (Inr (SuccessResponse (cmd_id cmd) (JObj [(''closed'', JBool True)])), m1))
      else (case execute cmd (fst m) of
              Inl msg \<Rightarrow> (Inr (errorResponse_spec (cmd_id cmd) msg), m)
            | Inr result \<Rightarrow> (Inr (SuccessResponse (cmd_id cmd) result), m)))"

definition spec_protocol ::
  "(string \<Rightarrow> json option) \<Rightarrow> (json \<Rightarrow> string)
     \<Rightarrow> (command \<Rightarrow> BrowserState \<Rightarrow> string + json) \<Rightarrow> protocol" where
  "spec_protocol parse stringify execute =
     \<lparr>parseCommand = parseCommand_spec parse,
      serializeResponse = serializeResponse_spec stringify,
      errorResponse = errorResponse_spec,
      executeCommand = executeCommand_spec execute\<rparr>"

section \<open>A concrete environment for running the handler\<close>

text \<open>
  Four frames as a client sends them, with the values \<^verbatim>\<open>JSON.parse\<close> gives for them; on
  any other text \<open>sample_parse\<close> answers that the text is not JSON, which is right for
  the line \<open>garbage_frame\<close> used below. \<open>show_json\<close> prints a value as \<^verbatim>\<open>JSON.stringify\<close> does,
  for strings that need no escaping. \<open>sample_execute\<close> is an execution capability that
  needs a page and returns a fixed payload.
\<close>

definition close_frame :: string where
  \<open>close_frame = ''{"id":"b2","action":"close"}''\<close>

definition second_close_frame :: string where
  \<open>second_close_frame = ''{"id":"b3","action":"close"}''\<close>

definition snapshot_frame :: string where
  \<open>snapshot_frame = ''{"id":"a1","action":"snapshot"}''\<close>

definition content_frame :: string where
  \<open>content_frame = ''{"id":"a2","action":"content"}''\<close>

definition garbage_frame :: string where
  "garbage_frame = ''not json''"

text \<open>The line the scenario of section 8 of the spec expects in answer to \<open>close_frame\<close>.\<close>

definition close_response_text :: string where
  \<open>close_response_text = ''{"id":"b2","success":true,"data":{"closed":true}}''\<close>

definition sample_parse :: "string \<Rightarrow> json option" where
  "sample_parse line =
     map_of
       [(close_frame, JObj [(''id'', JStr ''b2''), (''action'', JStr ''close'')]),
        (snapshot_frame, JObj [(''id'', JStr ''a1''), (''action'', JStr ''snapshot'')]),
        (content_frame, JObj [(''id'', JStr ''a2''), (''action'', JStr ''content'')]),
        (second_close_frame, JObj [(''id'', JStr ''b3''), (''action'', JStr ''close'')])]
       line"

fun show_json :: "json \<Rightarrow> string"
  and show_items :: "json list \<Rightarrow> string"
  and show_members :: "(string \<times> json) list \<Rightarrow> string" where
  "show_json JNull = ''null''"
| "show_json (JBool b) = (if b then ''true'' else ''false'')"
| "show_json (JNum n) = (if n < 0 then CHR ''-'' # decimal (nat (- n)) else decimal (nat n))"
| "show_json (JStr s) = CHR 0x22 # s @ [CHR 0x22]"
| "show_json (JArr xs) = CHR ''['' # show_items xs @ '']''"
| "show_json (JObj kvs) = CHR ''{'' # show_members kvs @ ''}''"
| "show_items [] = []"
| "show_items (x # xs) = show_json x @ (if xs = [] then [] else CHR '','' # show_items xs)"
| "show_members [] = []"
| "show_members (kv # kvs) =
     CHR 0x22 # fst kv @ [CHR 0x22, CHR '':''] @ show_json (snd kv)
       @ (if kvs = [] then [] else CHR '','' # show_members kvs)"

definition sample_execute :: "command \<Rightarrow> BrowserState \<Rightarrow> string + json" where
  "sample_execute cmd s =
     (case page s of
        None \<Rightarrow> Inl ''Browser not launched. Call launch first.''
      | Some p \<Rightarrow> Inr (JObj [(''done'', JStr (action cmd))]))"

definition sample_protocol :: protocol where
  "sample_protocol = spec_protocol sample_parse show_json sample_execute"

text \<open>A daemon started by process 4242 on an empty file system, every Playwright call resolving.\<close>

definition fresh_daemon :: daemon where
  "fresh_daemon = startDaemon 4242 Map.empty []"

text \<open>The commands the four frames decode to.\<close>

definition close_cmd :: command where
  "close_cmd =
     \<lparr>cmd_id = ''b2'', action = ''close'', opt_browser = None, opt_headless = None,
      opt_viewport = None,
      payload = JObj [(''id'', JStr ''b2''), (''action'', JStr ''close'')]\<rparr>"

definition second_close_cmd :: command where
  "second_close_cmd =
     \<lparr>cmd_id = ''b3'', action = ''close'', opt_browser = None, opt_headless = None,
      opt_viewport = None,
      payload = JObj [(''id'', JStr ''b3''), (''action'', JStr ''close'')]\<rparr>"

definition snapshot_cmd :: command where
  "snapshot_cmd =
     \<lparr>cmd_id = ''a1'', action = ''snapshot'', opt_browser = None, opt_headless = None,
      opt_viewport = None,
      payload = JObj [(''id'', JStr ''a1''), (''action'', JStr ''snapshot'')]\<rparr>"

definition content_cmd :: command where
  "content_cmd =
     \<lparr>cmd_id = ''a2'', action = ''content'', opt_browser = None, opt_headless = None,
      opt_viewport = None,
      payload = JObj [(''id'', JStr ''a2''), (''action'', JStr ''content'')]\<rparr>"

text \<open>
  Four orders of events on connection 0 of the fresh daemon. Two action commands in two
  reads, the second read arriving while the handler of the first waits for the launcher.
  A close command and a snapshot command in one read; the promise of the close settles
  and the timer fires. A snapshot command and then a close command in two reads, where
  \<open>executeCommand\<close> of the close settles while the handler of the snapshot still waits
  for the launcher, which settles afterwards. A snapshot frame cut after its seventh
  character, the second read holding its rest and a content frame, every promise
  settling before anything else arrives.
\<close>

definition back_to_back :: "async_event list" where
  "back_to_back =
     [Arrives 0 (snapshot_frame @ [CHR 0x0A]), Arrives 0 (content_frame @ [CHR 0x0A])]"





text \<open>
  What a data handler may change of the supervisor's state: nothing of the files, the
  exit status, the listening flag, the suspended shutdown or the shutdown steps of the
  trace; the flag and the timers either stay, or the flag goes from false to true with
  one more timer.
\<close>

definition quiet :: "daemon \<Rightarrow> daemon \<Rightarrow> bool" where
  "quiet d d' =
     (exited d' = exited d \<and> awaiting d' = awaiting d \<and> files d' = files d
      \<and> listening d' = listening d \<and> lifecycle (trace d') = lifecycle (trace d)
      \<and> (shuttingDown d' = shuttingDown d \<and> timers d' = timers d
           \<or> shuttingDown d' \<and> \<not> shuttingDown d \<and> timers d' = Suc (timers d)))"

text \<open>
  The invariant of a started daemon: while it lives, the trace holds the start-up
  cleanup only and at most one shutdown is pending, under a set flag; once it has
  exited, it exited with status 0 after one shutdown sequence and nothing is pending.
\<close>

definition settled :: "daemon \<Rightarrow> bool" where
  "settled d =
     (if exited d = None
      then lifecycle (trace d) = [CleanupSocket] \<and> pending d \<le> 1
           \<and> (pending d = 0 \<or> shuttingDown d)
      else exited d = Some 0
           \<and> lifecycle (trace d) = [CleanupSocket, ServerClose, CleanupSocket, Exit 0]
           \<and> pending d = 0)"






text \<open>
  The rest of the body of the loop from an await on, when every later promise of the
  handler settles at once: what \<open>process_line\<close> does after the point where the task was
  suspended. \<open>stage\<close> counts the awaits that may still follow.
\<close>

definition finish_execute :: "protocol \<Rightarrow> nat \<Rightarrow> command \<Rightarrow> daemon \<Rightarrow> flow \<times> daemon" where
  "finish_execute P c cmd d =
     (case executeCommand P cmd (manager d) of
        (Inl msg, m) \<Rightarrow>
          (Continue, socket_write P c (errorResponse P ''error'' msg) (d\<lparr>manager := m\<rparr>))
      | (Inr resp, m) \<Rightarrow>
          (if action cmd = ''close''
           then (Return, schedule_shutdown (socket_write P c resp (d\<lparr>manager := m\<rparr>)))
           else (Continue, socket_write P c resp (d\<lparr>manager := m\<rparr>))))"

definition finish_page :: "protocol \<Rightarrow> nat \<Rightarrow> command \<Rightarrow> string + nat \<Rightarrow> daemon \<Rightarrow> flow \<times> daemon" where
  "finish_page P c cmd out d =
     (case out of
        Inl msg \<Rightarrow> (Continue, socket_write P c (errorResponse P ''error'' msg) d)
      | Inr p \<Rightarrow>
          finish_execute P c cmd
            (d\<lparr>manager := ((fst (manager d))\<lparr>page := Some p\<rparr>, snd (manager d))\<rparr>))"

definition finish_context :: "protocol \<Rightarrow> nat \<Rightarrow> command \<Rightarrow> string + nat \<Rightarrow> daemon \<Rightarrow> flow \<times> daemon" where
  "finish_context P c cmd out d =
     (case out of
        Inl msg \<Rightarrow> (Continue, socket_write P c (errorResponse P ''error'' msg) d)
      | Inr x \<Rightarrow>
          (case pw_create (PwNewPage x) (snd (manager d)) of
             (out', w) \<Rightarrow>
               finish_page P c cmd out'
                 (d\<lparr>manager := ((fst (manager d))\<lparr>bcontext := Some x\<rparr>, w)\<rparr>)))"

definition finish_browser :: "protocol \<Rightarrow> nat \<Rightarrow> command \<Rightarrow> string + nat \<Rightarrow> daemon \<Rightarrow> flow \<times> daemon" where
  "finish_browser P c cmd out d =
     (case out of
        Inl msg \<Rightarrow> (Continue, socket_write P c (errorResponse P ''error'' msg) d)
      | Inr b \<Rightarrow>
          (case pw_create (PwNewContext b (viewport_of auto_launch)) (snd (manager d)) of
             (out', w) \<Rightarrow>
               finish_context P c cmd out'
                 (d\<lparr>manager := ((fst (manager d))\<lparr>browser := Some b\<rparr>, w)\<rparr>)))"

fun finish :: "protocol \<Rightarrow> task \<Rightarrow> daemon \<Rightarrow> flow \<times> daemon" where
  "finish P (AwaitBrowser c cmd out) d = finish_browser P c cmd out d"
| "finish P (AwaitContext c cmd out) d = finish_context P c cmd out d"
| "finish P (AwaitPage c cmd out) d = finish_page P c cmd out d"
| "finish P (AwaitExecute c cmd) d = finish_execute P c cmd d"

fun stage :: "task \<Rightarrow> nat" where
  "stage (AwaitBrowser c cmd out) = 3"
| "stage (AwaitContext c cmd out) = 2"
| "stage (AwaitPage c cmd out) = 1"
| "stage (AwaitExecute c cmd) = 0"

text \<open>The buffer of a connection written back after a run of the loop.\<close>

definition put_buffer :: "nat \<Rightarrow> string \<times> loop \<Rightarrow> loop" where
  "put_buffer c bL =
     (snd bL)\<lparr>core := (core (snd bL))\<lparr>buffers := (buffers (core (snd bL)))(c := fst bL)\<rparr>\<rparr>"

definition set_buffer :: "nat \<Rightarrow> string \<times> daemon \<Rightarrow> daemon" where
  "set_buffer c bd = (snd bd)\<lparr>buffers := (buffers (snd bd))(c := fst bd)\<rparr>"

section \<open>Properties of BrowserManager\<close>

lemma close_total:
  "close (s, w) =
     (None, (initial_state,
        w\<lparr>script := drop (length (close_calls s)) (script w),
          pw_log := pw_log w @ close_calls s\<rparr>))"
  by (cases s; cases w)
     (auto simp: close_def close_page_def close_context_def close_browser_def swallow_def
        pw_close_def initial_state_def close_calls_def drop_Suc
        split: option.splits list.splits prod.splits)

lemma open_browser_ok:
  assumes "fst (open_browser options (s, w)) = None"
  shows "snd (open_browser options (s, w)) =
     (\<lparr>browser = Some (next_handle w), bcontext = Some (next_handle w + 1),
       page = Some (next_handle w + 2)\<rparr>,
      w\<lparr>script := drop 3 (script w), next_handle := next_handle w + 3,
        pw_log := pw_log w @
          [PwLaunch (select_launcher options) (headless_of options),
           PwNewContext (next_handle w) (viewport_of options),
           PwNewPage (next_handle w + 1)]\<rparr>)"
  using assms
  by (cases s; cases w)
     (auto simp: open_browser_def pw_create_def Let_def drop_Suc numeral_3_eq_3
        split: list.splits option.splits prod.splits sum.splits)

text \<open>
  Claim C9. \<open>launch\<close> on a manager whose browser is present closes what is there first
  (one close call per handle present: page, context, browser, in that order, leaving
  all three fields null) and then opens anew. When the opening calls resolve, the
  manager holds a new browser, a new context with the supplied viewport or 1280 by 720,
  and a new page, and the Playwright log reads: the closes, the launch, the new
  context, the new page.
\<close>

theorem launch_replaces_present_resource:
  assumes "browser s \<noteq> None"
  shows "launch options (s, w) =
           open_browser options
             (initial_state,
              w\<lparr>script := drop (length (close_calls s)) (script w),
                pw_log := pw_log w @ close_calls s\<rparr>)
         \<and> (fst (launch options (s, w)) = None \<longrightarrow>
              snd (launch options (s, w)) =
                (\<lparr>browser = Some (next_handle w), bcontext = Some (next_handle w + 1),
                  page = Some (next_handle w + 2)\<rparr>,
                 w\<lparr>script := drop (length (close_calls s) + 3) (script w),
                   next_handle := next_handle w + 3,
                   pw_log := pw_log w @ close_calls s @
                     [PwLaunch (select_launcher options) (headless_of options),
                      PwNewContext (next_handle w)
                        (case opt_viewport options of None \<Rightarrow> (1280, 720) | Some v \<Rightarrow> v),
                      PwNewPage (next_handle w + 1)]\<rparr>))"
proof -
  let ?w1 = "w\<lparr>script := drop (length (close_calls s)) (script w),
                pw_log := pw_log w @ close_calls s\<rparr>"
  have eq: "launch options (s, w) = open_browser options (initial_state, ?w1)"
    using assms by (simp add: launch_def close_total)
  have "snd (open_browser options (initial_state, ?w1)) =
          (\<lparr>browser = Some (next_handle w), bcontext = Some (next_handle w + 1),
            page = Some (next_handle w + 2)\<rparr>,
           w\<lparr>script := drop (length (close_calls s) + 3) (script w),
             next_handle := next_handle w + 3,
             pw_log := pw_log w @ close_calls s @
               [PwLaunch (select_launcher options) (headless_of options),
                PwNewContext (next_handle w)
                  (case opt_viewport options of None \<Rightarrow> (1280, 720) | Some v \<Rightarrow> v),
                PwNewPage (next_handle w + 1)]\<rparr>)"
    if "fst (open_browser options (initial_state, ?w1)) = None"
    using open_browser_ok [OF that] by (simp add: viewport_of_def add.commute)
  with eq show ?thesis by simp
qed

theorem launch_replaces_present_resource_witness:
  "browser \<lparr>browser = Some 0, bcontext = Some 1, page = Some 2\<rparr> \<noteq> None
   \<and> snd (launch
        \<lparr>cmd_id = ''c1'', action = ''launch'', opt_browser = Some ''firefox'',
          opt_headless = Some False, opt_viewport = None, payload = JNull\<rparr>
        (\<lparr>browser = Some 0, bcontext = Some 1, page = Some 2\<rparr>,
         \<lparr>script = [Some ''Target closed''], next_handle = 3, pw_log = []\<rparr>)) =
     (\<lparr>browser = Some 3, bcontext = Some 4, page = Some 5\<rparr>,
      \<lparr>script = [], next_handle = 6,
        pw_log = [PwClosePage 2, PwCloseContext 1, PwCloseBrowser 0,
                  PwLaunch firefox False, PwNewContext 3 (1280, 720), PwNewPage 4]\<rparr>)"
proof -
  let ?s = "\<lparr>browser = Some 0, bcontext = Some 1, page = Some 2\<rparr>"
  let ?w = "\<lparr>script = [Some ''Target closed''], next_handle = 3, pw_log = []\<rparr>"
  let ?o = "\<lparr>cmd_id = ''c1'', action = ''launch'', opt_browser = Some ''firefox'',
          opt_headless = Some False, opt_viewport = None, payload = JNull\<rparr>"
  have a: "browser ?s \<noteq> None" by simp
  have b: "fst (launch ?o (?s, ?w)) = None" by code_simp
  have "snd (launch ?o (?s, ?w)) =
     (\<lparr>browser = Some 3, bcontext = Some 4, page = Some 5\<rparr>,
      \<lparr>script = [], next_handle = 6,
        pw_log = [PwClosePage 2, PwCloseContext 1, PwCloseBrowser 0,
                  PwLaunch firefox False, PwNewContext 3 (1280, 720), PwNewPage 4]\<rparr>)"
    using launch_replaces_present_resource [OF a, of ?o ?w, THEN conjunct2, rule_format, OF b]
    by (simp add: close_calls_def select_launcher_def headless_of_def)
  with a show ?thesis by blast
qed

text \<open>
  Claim C10. \<open>close\<close> never raises and always ends not launched: for every state of the
  manager and every outcome of the Playwright close calls, it returns normally with the
  browser, context and page fields null, so \<open>isLaunched\<close> is false; on a manager that was
  never launched it changes nothing.
\<close>

theorem close_never_raises:
  "fst (close m) = None \<and> fst (snd (close m)) = initial_state
   \<and> browser (fst (snd (close m))) = None \<and> bcontext (fst (snd (close m))) = None
   \<and> page (fst (snd (close m))) = None \<and> isLaunched (snd (close m)) = False
   \<and> close (initial_state, w) = (None, (initial_state, w))"
  by (cases m) (simp add: close_total isLaunched_def initial_state_def close_calls_def)

theorem close_never_raises_witness:
  "close (\<lparr>browser = Some 0, bcontext = Some 1, page = Some 2\<rparr>,
          \<lparr>script = [Some ''page crashed'', None, Some ''browser gone''],
            next_handle = 3, pw_log = []\<rparr>) =
     (None, \<lparr>browser = None, bcontext = None, page = None\<rparr>,
      \<lparr>script = [], next_handle = 3,
        pw_log = [PwClosePage 2, PwCloseContext 1, PwCloseBrowser 0]\<rparr>)"
proof -
  let ?m = "(\<lparr>browser = Some 0, bcontext = Some 1, page = Some 2\<rparr>,
          \<lparr>script = [Some ''page crashed'', None, Some ''browser gone''],
            next_handle = 3, pw_log = []\<rparr>)"
  have "pw_log (snd (snd (close ?m))) = [PwClosePage 2, PwCloseContext 1, PwCloseBrowser 0]"
    by code_simp
  moreover have "script (snd (snd (close ?m))) = []" by code_simp
  moreover have "next_handle (snd (snd (close ?m))) = 3" by code_simp
  ultimately show ?thesis
    using close_never_raises [of ?m]
    by (cases "close ?m") (auto simp: initial_state_def)
qed

section \<open>Properties of the instance marker\<close>

lemma cleanupSocket_eq: "cleanupSocket f = f(SOCKET_PATH := None, PID_FILE := None)"
  by (auto simp: cleanupSocket_def existsSync_def unlinkSync_def fun_eq_iff split: option.splits)

lemma paths_distinct: "SOCKET_PATH \<noteq> PID_FILE" "PID_FILE \<noteq> SOCKET_PATH"
  by (simp_all add: SOCKET_PATH_def PID_FILE_def)

text \<open>
  Claim C7. \<open>isDaemonRunning\<close> answers false, changing nothing, when the marker file is
  absent; when the marker holds a process id for which the existence probe fails, it
  answers false and leaves the file system without the marker and without the socket
  file, every other path as it was; when the probe succeeds for the recorded id, it
  answers true and changes nothing.
\<close>

theorem isDaemonRunning_cases:
  "(f PID_FILE = None \<longrightarrow> isDaemonRunning procs f = (False, f))
   \<and> (f PID_FILE = Some (Regular txt) \<and> parseInt (trim txt) = Some p \<and> p \<notin> set procs \<longrightarrow>
        isDaemonRunning procs f = (False, f(SOCKET_PATH := None, PID_FILE := None)))
   \<and> (f PID_FILE = Some (Regular txt) \<and> parseInt (trim txt) = Some p \<and> p \<in> set procs \<longrightarrow>
        isDaemonRunning procs f = (True, f))"
  by (simp add: isDaemonRunning_def existsSync_def readFileSync_def kill0_def cleanupSocket_eq)

theorem isDaemonRunning_cases_witness:
  "isDaemonRunning [1, 4242] Map.empty = (False, Map.empty)
   \<and> isDaemonRunning [1, 77] [SOCKET_PATH \<mapsto> Socket 4242, PID_FILE \<mapsto> Regular ''4242'']
       = (False, Map.empty)
   \<and> fst (isDaemonRunning [1, 4242] [SOCKET_PATH \<mapsto> Socket 4242, PID_FILE \<mapsto> Regular ''4242''])
       = True"
proof -
  let ?f = "[SOCKET_PATH \<mapsto> Socket 4242, PID_FILE \<mapsto> Regular ''4242'']"
  have p: "parseInt (trim ''4242'') = Some 4242" by code_simp
  have f: "?f PID_FILE = Some (Regular ''4242'')" by simp
  have 1: "isDaemonRunning [1, 4242] Map.empty = (False, Map.empty)"
    using isDaemonRunning_cases [of Map.empty "[1, 4242]"] by simp
  have 2: "isDaemonRunning [1, 77] ?f = (False, Map.empty)"
    using isDaemonRunning_cases [of ?f "[1, 77]" "''4242''" 4242] p f by (simp add: paths_distinct)
  have 3: "fst (isDaemonRunning [1, 4242] ?f) = True"
    using isDaemonRunning_cases [of ?f "[1, 4242]" "''4242''" 4242] p f by simp
  from 1 2 3 show ?thesis by blast
qed

section \<open>Properties of the supervisor\<close>

text \<open>
  The handler of the server's \<open>error\<close> event removes the socket file and the marker
  before it exits with status 1, whoever owns them.
\<close>

lemma server_error_removes_artifacts:
  "files (server_error d) SOCKET_PATH = None \<and> files (server_error d) PID_FILE = None
   \<and> exited (server_error d) = Some 1"
  by (simp add: server_error_def cleanupSocket_eq paths_distinct)

text \<open>
  Claim C2 asks that a daemon started while another instance holds the socket path
  fails at the bind and leaves that instance's socket and marker alone. The code
  does otherwise. Process 200 starts while process 100 is listening, with its socket
  file and its marker in place: \<open>startDaemon\<close> first unlinks both, writes its own id
  into the marker, and then binds the path it has just freed. It does not exit; the
  socket file and the marker now belong to process 200.
\<close>

theorem startDaemon_second_instance:
  "files (startDaemon 200 [SOCKET_PATH \<mapsto> Socket 100, PID_FILE \<mapsto> Regular ''100''] [])
      SOCKET_PATH = Some (Socket 200)
   \<and> files (startDaemon 200 [SOCKET_PATH \<mapsto> Socket 100, PID_FILE \<mapsto> Regular ''100''] [])
      PID_FILE = Some (Regular ''200'')
   \<and> exited (startDaemon 200 [SOCKET_PATH \<mapsto> Socket 100, PID_FILE \<mapsto> Regular ''100''] [])
      = None
   \<and> listening (startDaemon 200 [SOCKET_PATH \<mapsto> Socket 100, PID_FILE \<mapsto> Regular ''100''] [])"
proof -
  have "decimal 200 = ''200''" by code_simp
  then show ?thesis
    by (simp add: startDaemon_def cleanupSocket_eq writeFileSync_def existsSync_def
        paths_distinct Let_def)
qed

section \<open>Properties of the connection handler\<close>




lemma split_stream_no_newline: "CHR 0x0A \<notin> set b \<Longrightarrow> split_stream b = ([], b)"
  by (induction b) auto

lemma residue_no_newline: "CHR 0x0A \<notin> set (snd (split_stream b))"
  by (induction b) (auto split: prod.splits list.splits)

lemma frames_residue: "frames (residue s) = []"
  by (simp add: frames_def residue_def split_stream_no_newline residue_no_newline)

lemma residue_residue: "residue (residue s) = residue s"
  by (simp add: frames_def residue_def split_stream_no_newline residue_no_newline)








lemma drain_no_newline: "CHR 0x0A \<notin> set b \<Longrightarrow> drain P c b d = (b, d)"
  by (subst drain.simps) simp

lemma drain_line:
  assumes "CHR 0x0A \<notin> set l"
  shows "drain P c (l @ CHR 0x0A # rest) d =
     (if blank l then drain P c rest d
      else (case process_line P c l d of
              (Continue, d1) \<Rightarrow> drain P c rest d1
            | (Return, d1) \<Rightarrow> (rest, d1)))"
proof -
  have "takeWhile (\<lambda>x. x \<noteq> CHR 0x0A) (l @ CHR 0x0A # rest) = l"
    using assms by (induction l) auto
  then have idx: "newlineIdx (l @ CHR 0x0A # rest) = length l"
    by (simp add: newlineIdx_def)
  show ?thesis
    by (subst drain.simps) (simp add: idx split: prod.splits flow.splits)
qed

lemma sample_frames_plain:
  "CHR 0x0A \<notin> set close_frame" "CHR 0x0A \<notin> set snapshot_frame"
  "CHR 0x0A \<notin> set content_frame" "CHR 0x0A \<notin> set garbage_frame"
  "CHR 0x0A \<notin> set second_close_frame"
  by (simp_all add: close_frame_def snapshot_frame_def content_frame_def garbage_frame_def
      second_close_frame_def)

lemma sample_frames_not_blank:
  "\<not> blank close_frame" "\<not> blank snapshot_frame" "\<not> blank content_frame"
  "\<not> blank garbage_frame" "\<not> blank second_close_frame"
  by (simp_all add: blank_def trim_def is_space_def close_frame_def snapshot_frame_def
      content_frame_def garbage_frame_def second_close_frame_def)

lemma sample_parse_frames:
  "sample_parse close_frame = Some (JObj [(''id'', JStr ''b2''), (''action'', JStr ''close'')])"
  "sample_parse snapshot_frame =
     Some (JObj [(''id'', JStr ''a1''), (''action'', JStr ''snapshot'')])"
  "sample_parse content_frame =
     Some (JObj [(''id'', JStr ''a2''), (''action'', JStr ''content'')])"
  "sample_parse garbage_frame = None"
  "sample_parse second_close_frame =
     Some (JObj [(''id'', JStr ''b3''), (''action'', JStr ''close'')])"
  by (simp_all add: sample_parse_def close_frame_def snapshot_frame_def content_frame_def
      garbage_frame_def second_close_frame_def)

lemma sample_parseCommand:
  "parseCommand sample_protocol close_frame = ParseSuccess close_cmd"
  "parseCommand sample_protocol snapshot_frame = ParseSuccess snapshot_cmd"
  "parseCommand sample_protocol content_frame = ParseSuccess content_cmd"
  "parseCommand sample_protocol garbage_frame =
     ParseFailure None ''MalformedPayload: the frame is not well-formed JSON''"
  "parseCommand sample_protocol second_close_frame = ParseSuccess second_close_cmd"
  by (simp_all add: sample_protocol_def spec_protocol_def parseCommand_spec_def
      sample_parse_frames field_string_def field_bool_def field_viewport_def known_actions_def
      close_cmd_def snapshot_cmd_def content_cmd_def second_close_cmd_def)

lemma cleanup_start: "cleanupSocket f SOCKET_PATH = None"
  by (simp add: cleanupSocket_eq paths_distinct)

lemma startDaemon_fields:
  "pid (startDaemon p f sc) = p"
  "manager (startDaemon p f sc) = (initial_state, \<lparr>script = sc, next_handle = 0, pw_log = []\<rparr>)"
  "shuttingDown (startDaemon p f sc) = False"
  "buffers (startDaemon p f sc) c = []"
  "timers (startDaemon p f sc) = 0"
  "awaiting (startDaemon p f sc) = False"
  "listening (startDaemon p f sc) = True"
  "exited (startDaemon p f sc) = None"
  "trace (startDaemon p f sc) = [CleanupSocket]"
  "files (startDaemon p f sc) =
     (f(SOCKET_PATH := None, PID_FILE := None))
       (PID_FILE \<mapsto> Regular (decimal p), SOCKET_PATH \<mapsto> Socket p)"
  by (simp_all add: startDaemon_def Let_def existsSync_def writeFileSync_def cleanup_start
      paths_distinct cleanupSocket_eq)

lemmas fresh_daemon_fields = startDaemon_fields [of 4242 Map.empty "[]", folded fresh_daemon_def]

lemma socket_write_fields:
  "manager (socket_write P c r d) = manager d"
  "exited (socket_write P c r d) = exited d"
  "shuttingDown (socket_write P c r d) = shuttingDown d"
  "timers (socket_write P c r d) = timers d"
  "awaiting (socket_write P c r d) = awaiting d"
  "buffers (socket_write P c r d) = buffers d"
  "files (socket_write P c r d) = files d"
  "listening (socket_write P c r d) = listening d"
  "trace (socket_write P c r d) = trace d @ [SocketWrite c (serializeResponse P r @ [CHR 0x0A])]"
  by (simp_all add: socket_write_def)

lemma schedule_shutdown_fields:
  "manager (schedule_shutdown d) = manager d"
  "exited (schedule_shutdown d) = exited d"
  "shuttingDown (schedule_shutdown d) = True"
  "timers (schedule_shutdown d) = (if shuttingDown d then timers d else Suc (timers d))"
  "awaiting (schedule_shutdown d) = awaiting d"
  "buffers (schedule_shutdown d) = buffers d"
  "files (schedule_shutdown d) = files d"
  "listening (schedule_shutdown d) = listening d"
  "trace (schedule_shutdown d) = (if shuttingDown d then trace d else trace d @ [SetTimeout 100])"
  by (simp_all add: schedule_shutdown_def)

lemma process_line_parse_failure:
  "parseCommand P l = ParseFailure i err \<Longrightarrow>
     process_line P c l d =
       (Continue,
        socket_write P c (errorResponse P (case i of None \<Rightarrow> ''unknown'' | Some x \<Rightarrow> x) err) d)"
  by (simp add: process_line_def)

lemma process_line_close:
  "parseCommand P l = ParseSuccess cmd \<Longrightarrow> action cmd = ''close'' \<Longrightarrow>
   executeCommand P cmd (manager d) = (Inr resp, m) \<Longrightarrow>
     process_line P c l d =
       (Return, schedule_shutdown (socket_write P c resp (d\<lparr>manager := m\<rparr>)))"
  by (simp add: process_line_def)

lemma process_line_launched:
  "parseCommand P l = ParseSuccess cmd \<Longrightarrow> action cmd \<noteq> ''close'' \<Longrightarrow>
   isLaunched (manager d) \<or> action cmd = ''launch'' \<Longrightarrow>
   executeCommand P cmd (manager d) = (Inr resp, m) \<Longrightarrow>
     process_line P c l d = (Continue, socket_write P c resp (d\<lparr>manager := m\<rparr>))"
  by (auto simp: process_line_def)

lemma process_line_acquire:
  "parseCommand P l = ParseSuccess cmd \<Longrightarrow> action cmd \<noteq> ''close'' \<Longrightarrow>
   action cmd \<noteq> ''launch'' \<Longrightarrow> \<not> isLaunched (manager d) \<Longrightarrow>
   launch auto_launch (manager d) = (None, m1) \<Longrightarrow>
   executeCommand P cmd m1 = (Inr resp, m2) \<Longrightarrow>
     process_line P c l d = (Continue, socket_write P c resp (d\<lparr>manager := m2\<rparr>))"
  by (simp add: process_line_def)

lemma launch_auto_ok:
  assumes "browser s = None" "script w = []"
  shows "launch auto_launch (s, w) =
     (None,
      \<lparr>browser = Some (next_handle w), bcontext = Some (next_handle w + 1),
        page = Some (next_handle w + 2)\<rparr>,
      w\<lparr>next_handle := next_handle w + 3,
        pw_log := pw_log w @
          [PwLaunch chromium True, PwNewContext (next_handle w) (1280, 720),
           PwNewPage (next_handle w + 1)]\<rparr>)"
  using assms
  by (cases s; cases w)
     (simp add: launch_def open_browser_def pw_create_def auto_launch_def Let_def
        select_launcher_def headless_of_def viewport_of_def)

lemma sample_protocol_sel:
  "executeCommand sample_protocol = executeCommand_spec sample_execute"
  "serializeResponse sample_protocol = serializeResponse_spec show_json"
  "errorResponse sample_protocol = errorResponse_spec"
  by (simp_all add: sample_protocol_def spec_protocol_def)

lemma sample_close_response_text:
  "serializeResponse sample_protocol (SuccessResponse ''b2'' (JObj [(''closed'', JBool True)])) =
     close_response_text"
  by (simp add: sample_protocol_sel serializeResponse_spec_def close_response_text_def)

lemma sample_execute_close:
  "executeCommand sample_protocol close_cmd (s, w) =
     (Inr (SuccessResponse ''b2'' (JObj [(''closed'', JBool True)])),
      initial_state,
      w\<lparr>script := drop (length (close_calls s)) (script w), pw_log := pw_log w @ close_calls s\<rparr>)"
  by (simp add: sample_protocol_sel executeCommand_spec_def close_cmd_def close_total)

lemma sample_execute_second_close:
  "executeCommand sample_protocol second_close_cmd (s, w) =
     (Inr (SuccessResponse ''b3'' (JObj [(''closed'', JBool True)])),
      initial_state,
      w\<lparr>script := drop (length (close_calls s)) (script w), pw_log := pw_log w @ close_calls s\<rparr>)"
  by (simp add: sample_protocol_sel executeCommand_spec_def second_close_cmd_def close_total)

lemma sample_execute_snapshot:
  "page s = Some p \<Longrightarrow>
     executeCommand sample_protocol snapshot_cmd (s, w) =
       (Inr (SuccessResponse ''a1'' (JObj [(''done'', JStr ''snapshot'')])), s, w)"
  by (simp add: sample_protocol_sel executeCommand_spec_def snapshot_cmd_def sample_execute_def)

lemma sample_execute_content:
  "page s = Some p \<Longrightarrow>
     executeCommand sample_protocol content_cmd (s, w) =
       (Inr (SuccessResponse ''a2'' (JObj [(''done'', JStr ''content'')])), s, w)"
  by (simp add: sample_protocol_sel executeCommand_spec_def content_cmd_def sample_execute_def)

lemma sample_actions:
  "action close_cmd = ''close''" "action snapshot_cmd = ''snapshot''"
  "action content_cmd = ''content''" "action second_close_cmd = ''close''"
  by (simp_all add: close_cmd_def snapshot_cmd_def content_cmd_def second_close_cmd_def)

lemma quiet_refl: "quiet d d"
  by (simp add: quiet_def)

lemma quiet_trans: "quiet d d1 \<Longrightarrow> quiet d1 d2 \<Longrightarrow> quiet d d2"
  by (auto simp: quiet_def)

lemma process_line_quiet: "quiet d (snd (process_line P c l d))"
  by (auto simp: process_line_def quiet_def socket_write_def schedule_shutdown_def
      lifecycle_def
      split: parse_result.splits prod.splits option.splits sum.splits)

lemma drain_quiet: "quiet d (snd (drain P c b d))"
proof (induction P c b d rule: drain.induct)
  case (1 P c buffer d)
  let ?line = "take (newlineIdx buffer) buffer"
  let ?rest = "drop (Suc (newlineIdx buffer)) buffer"
  show ?case
  proof (cases "CHR 0x0A \<in> set buffer")
    case False
    then show ?thesis by (simp add: drain_no_newline quiet_refl)
  next
    case nl: True
    show ?thesis
    proof (cases "blank ?line")
      case True
      have "drain P c buffer d = drain P c ?rest d"
        using nl True by (subst drain.simps) simp
      with "1.IH"(1) [OF nl True] show ?thesis by simp
    next
      case nb: False
      obtain x y where pl: "process_line P c ?line d = (x, y)"
        by (cases "process_line P c ?line d")
      have q: "quiet d y" using process_line_quiet [of d P c ?line] pl by simp
      show ?thesis
      proof (cases x)
        case Continue
        have "drain P c buffer d = drain P c ?rest y"
          using nl nb pl Continue by (subst drain.simps) simp
        with "1.IH"(2) [OF nl nb pl [symmetric] Continue] q show ?thesis
          by (auto intro: quiet_trans)
      next
        case Return
        have "drain P c buffer d = (?rest, y)"
          using nl nb pl Return by (subst drain.simps) simp
        with q show ?thesis by simp
      qed
    qed
  qed
qed

lemma settled_quiet:
  assumes "settled d" "exited d = None" "quiet d d1"
  shows "settled (d1\<lparr>buffers := bs\<rparr>)"
  using assms by (auto simp: settled_def quiet_def pending_def split: if_splits)

lemma settled_step: "settled d \<Longrightarrow> settled (step P d e)"
proof (cases "exited d = None")
  case False
  assume "settled d"
  with False show ?thesis by (simp add: step_def)
next
  case live: True
  assume s: "settled d"
  show ?thesis
  proof (cases e)
    case (Data c chunk)
    obtain b d1 where dr: "drain P c (buffers d c @ chunk) d = (b, d1)"
      by (cases "drain P c (buffers d c @ chunk) d")
    with drain_quiet [of d P c "buffers d c @ chunk"] have "quiet d d1" by simp
    from settled_quiet [OF s live this] show ?thesis
      by (simp add: step_def live Data on_data_def dr)
  next
    case TimerFires
    with s live show ?thesis
      by (auto simp: step_def settled_def timer_callback_def pending_def lifecycle_def
          split: if_splits)
  next
    case Signal
    with s live show ?thesis
      by (auto simp: step_def settled_def shutdown_def pending_def close_total
          split: if_splits prod.splits option.splits)
  next
    case ShutdownResumes
    with s live show ?thesis
      by (auto simp: step_def settled_def shutdown_resume_def pending_def lifecycle_def
          split: if_splits)
  qed
qed

lemma settled_run: "settled d \<Longrightarrow> settled (run P d es)"
  unfolding run_def by (induction es arbitrary: d) (simp_all add: settled_step)

lemma settled_start: "settled (startDaemon p f sc)"
  by (simp add: settled_def startDaemon_fields lifecycle_def pending_def)

lemma step_exited: "exited d \<noteq> None \<Longrightarrow> step P d e = d"
  by (simp add: step_def)

lemma run_exited: "exited d \<noteq> None \<Longrightarrow> run P d es = d"
  unfolding run_def by (induction es) (simp_all add: step_exited)

lemma step_data:
  "exited d = None \<Longrightarrow>
     step P d (Data c chunk) =
       (case drain P c (buffers d c @ chunk) d of
          (b, d1) \<Rightarrow> d1\<lparr>buffers := (buffers d1)(c := b)\<rparr>)"
  by (simp add: step_def on_data_def)

lemma run_Cons: "run P d (e # es) = run P (step P d e) es"
  by (simp add: run_def)

lemma run_Nil: "run P d [] = d"
  by (simp add: run_def)

lemma drain_close_line:
  assumes "parseCommand P l = ParseSuccess cmd" "action cmd = ''close''"
    "executeCommand P cmd (manager d) = (Inr resp, m)"
    "\<not> blank l" "CHR 0x0A \<notin> set l"
  shows "drain P c (l @ CHR 0x0A # rest) d =
     (rest, schedule_shutdown (socket_write P c resp (d\<lparr>manager := m\<rparr>)))"
  using assms by (simp add: drain_line process_line_close)

lemma process_line_ignores_flag:
  "\<not> is_close P l \<Longrightarrow>
     process_line P c l (d\<lparr>shuttingDown := True\<rparr>) =
       (fst (process_line P c l d), (snd (process_line P c l d))\<lparr>shuttingDown := True\<rparr>)"
  by (auto simp: process_line_def is_close_def socket_write_def
      split: parse_result.splits prod.splits option.splits sum.splits)

lemma process_line_manager_acquire:
  assumes "parseCommand P l = ParseSuccess cmd" "action cmd \<noteq> ''launch''"
    "action cmd \<noteq> ''close''" "\<not> isLaunched (manager d)"
    "fst (launch auto_launch (manager d)) = None"
  shows "fst (process_line P c l d) = Continue"
    and "manager (snd (process_line P c l d)) =
           snd (executeCommand P cmd (snd (launch auto_launch (manager d))))"
  using assms
  by (auto simp: process_line_def socket_write_fields split: prod.splits sum.splits)

lemma process_line_manager_launched:
  assumes "parseCommand P l = ParseSuccess cmd" "action cmd \<noteq> ''launch''"
    "action cmd \<noteq> ''close''" "isLaunched (manager d)"
  shows "fst (process_line P c l d) = Continue"
    and "manager (snd (process_line P c l d)) = snd (executeCommand P cmd (manager d))"
  using assms
  by (auto simp: process_line_def socket_write_fields split: prod.splits sum.splits)

lemma process_line_acquire_fails:
  assumes "parseCommand P l = ParseSuccess cmd" "action cmd \<noteq> ''launch''"
    "action cmd \<noteq> ''close''" "\<not> isLaunched (manager d)"
    "launch auto_launch (manager d) = (Some msg, m)"
  shows "process_line P c l d =
     (Continue, socket_write P c (errorResponse P ''error'' msg) (d\<lparr>manager := m\<rparr>))"
  using assms by (simp add: process_line_def)

lemma auto_launch_log:
  assumes "\<not> isLaunched m" "fst (launch auto_launch m) = None"
  shows "pw_log (snd (snd (launch auto_launch m))) =
     pw_log (snd m) @
       [PwLaunch chromium True, PwNewContext (next_handle (snd m)) (1280, 720),
        PwNewPage (next_handle (snd m) + 1)]"
proof -
  obtain s w where m: "m = (s, w)" by (cases m)
  from assms have "fst (open_browser auto_launch (s, w)) = None"
    by (simp add: m launch_def isLaunched_def)
  from open_browser_ok [OF this] assms(1) show ?thesis
    by (simp add: m launch_def isLaunched_def auto_launch_def select_launcher_def
        headless_of_def viewport_of_def)
qed





lemma sample_is_close:
  "is_close sample_protocol close_frame" "\<not> is_close sample_protocol snapshot_frame"
  "\<not> is_close sample_protocol content_frame" "\<not> is_close sample_protocol garbage_frame"
  by (simp_all add: is_close_def sample_parseCommand sample_actions)

lemma sample_close_line:
  "drain sample_protocol c (close_frame @ CHR 0x0A # rest) d =
     (rest,
      schedule_shutdown
        (socket_write sample_protocol c
           (SuccessResponse ''b2'' (JObj [(''closed'', JBool True)]))
           (d\<lparr>manager := snd (close (manager d))\<rparr>)))"
proof -
  obtain s w where m: "manager d = (s, w)" by (cases "manager d")
  show ?thesis
    by (rule drain_close_line [OF sample_parseCommand(1) sample_actions(1) _
          sample_frames_not_blank(1) sample_frames_plain(1)])
       (simp add: m sample_execute_close close_total)
qed

lemma sample_second_close_line:
  "drain sample_protocol c (second_close_frame @ CHR 0x0A # rest) d =
     (rest,
      schedule_shutdown
        (socket_write sample_protocol c
           (SuccessResponse ''b3'' (JObj [(''closed'', JBool True)]))
           (d\<lparr>manager := snd (close (manager d))\<rparr>)))"
proof -
  obtain s w where m: "manager d = (s, w)" by (cases "manager d")
  show ?thesis
    by (rule drain_close_line [OF sample_parseCommand(5) sample_actions(4) _
          sample_frames_not_blank(5) sample_frames_plain(5)])
       (simp add: m sample_execute_second_close close_total)
qed

lemma sample_snapshot_fresh:
  assumes "manager d = (initial_state, \<lparr>script = [], next_handle = 0, pw_log = []\<rparr>)"
  shows "process_line sample_protocol c snapshot_frame d =
     (Continue,
      socket_write sample_protocol c
        (SuccessResponse ''a1'' (JObj [(''done'', JStr ''snapshot'')]))
        (d\<lparr>manager :=
             (\<lparr>browser = Some 0, bcontext = Some 1, page = Some 2\<rparr>,
              \<lparr>script = [], next_handle = 3,
                pw_log = [PwLaunch chromium True, PwNewContext 0 (1280, 720),
                          PwNewPage 1]\<rparr>)\<rparr>))"
proof -
  have l: "launch auto_launch (manager d) =
      (None, \<lparr>browser = Some 0, bcontext = Some 1, page = Some 2\<rparr>,
       \<lparr>script = [], next_handle = 3,
         pw_log = [PwLaunch chromium True, PwNewContext 0 (1280, 720), PwNewPage 1]\<rparr>)"
    unfolding assms by (subst launch_auto_ok) (simp_all add: initial_state_def)
  show ?thesis
    by (rule process_line_acquire [OF sample_parseCommand(2) _ _ _ l])
       (simp_all add: sample_actions assms isLaunched_def initial_state_def
          sample_execute_snapshot)
qed



lemma sample_launched_daemon:
  "exited (run sample_protocol fresh_daemon [Data 0 (snapshot_frame @ [CHR 0x0A])]) = None"
  "shuttingDown (run sample_protocol fresh_daemon [Data 0 (snapshot_frame @ [CHR 0x0A])]) = False"
  "buffers (run sample_protocol fresh_daemon [Data 0 (snapshot_frame @ [CHR 0x0A])]) 0 = []"
  "manager (run sample_protocol fresh_daemon [Data 0 (snapshot_frame @ [CHR 0x0A])]) =
     (\<lparr>browser = Some 0, bcontext = Some 1, page = Some 2\<rparr>,
      \<lparr>script = [], next_handle = 3,
        pw_log = [PwLaunch chromium True, PwNewContext 0 (1280, 720), PwNewPage 1]\<rparr>)"
  "trace (run sample_protocol fresh_daemon [Data 0 (snapshot_frame @ [CHR 0x0A])]) =
     [CleanupSocket,
      SocketWrite 0
        (serializeResponse sample_protocol
           (SuccessResponse ''a1'' (JObj [(''done'', JStr ''snapshot'')])) @ [CHR 0x0A])]"
  "files (run sample_protocol fresh_daemon [Data 0 (snapshot_frame @ [CHR 0x0A])]) =
     files fresh_daemon"
proof -
  let ?m3 = "(\<lparr>browser = Some 0, bcontext = Some 1, page = Some 2\<rparr>,
              \<lparr>script = [], next_handle = 3,
                pw_log = [PwLaunch chromium True, PwNewContext 0 (1280, 720),
                          PwNewPage 1]\<rparr>)"
  define d1 where "d1 = socket_write sample_protocol 0
        (SuccessResponse ''a1'' (JObj [(''done'', JStr ''snapshot'')]))
        (fresh_daemon\<lparr>manager := ?m3\<rparr>)"
  have p1: "process_line sample_protocol 0 snapshot_frame fresh_daemon = (Continue, d1)"
    unfolding d1_def by (rule sample_snapshot_fresh) (simp add: fresh_daemon_fields)
  have r: "run sample_protocol fresh_daemon [Data 0 (snapshot_frame @ [CHR 0x0A])] =
      d1\<lparr>buffers := (buffers d1)(0 := [])\<rparr>"
    by (simp add: run_Cons run_Nil step_data fresh_daemon_fields drain_line drain_no_newline
        sample_frames_plain sample_frames_not_blank p1)
  show "exited (run sample_protocol fresh_daemon [Data 0 (snapshot_frame @ [CHR 0x0A])]) = None"
    "shuttingDown (run sample_protocol fresh_daemon [Data 0 (snapshot_frame @ [CHR 0x0A])]) = False"
    "buffers (run sample_protocol fresh_daemon [Data 0 (snapshot_frame @ [CHR 0x0A])]) 0 = []"
    "manager (run sample_protocol fresh_daemon [Data 0 (snapshot_frame @ [CHR 0x0A])]) = ?m3"
    "trace (run sample_protocol fresh_daemon [Data 0 (snapshot_frame @ [CHR 0x0A])]) =
     [CleanupSocket,
      SocketWrite 0
        (serializeResponse sample_protocol
           (SuccessResponse ''a1'' (JObj [(''done'', JStr ''snapshot'')])) @ [CHR 0x0A])]"
    "files (run sample_protocol fresh_daemon [Data 0 (snapshot_frame @ [CHR 0x0A])]) =
     files fresh_daemon"
    unfolding r by (simp_all add: d1_def socket_write_fields fresh_daemon_fields)
qed

section \<open>Properties of overlapping handlers\<close>

lemma begin_line_buffers: "buffers (snd (begin_line P c l d)) = buffers d"
  by (simp add: begin_line_def socket_write_def split: parse_result.splits prod.splits)

lemma begin_line_Suspended:
  "begin_line P c l d = (Suspended t, d1) \<Longrightarrow>
     task_conn t = c \<and> parseCommand P l = ParseSuccess (task_cmd t)"
  by (auto simp: begin_line_def split: parse_result.splits prod.splits if_splits)

lemma begin_line_not_Returned: "begin_line P c l d \<noteq> (Returned, d1)"
  by (auto simp: begin_line_def split: parse_result.splits prod.splits if_splits)



lemma resume_Suspended:
  "resume P t d = (Suspended t', d1) \<Longrightarrow> task_conn t' = task_conn t \<and> task_cmd t' = task_cmd t"
  by (cases t) (auto simp: resume_def split: sum.splits prod.splits if_splits)














lemma adrain_no_newline: "CHR 0x0A \<notin> set b \<Longrightarrow> adrain P c b L = (b, L)"
  by (subst adrain.simps) simp

lemma adrain_line:
  assumes "CHR 0x0A \<notin> set l"
  shows "adrain P c (l @ CHR 0x0A # rest) L =
     (if blank l then adrain P c rest L
      else (case begin_line P c l (core L) of
              (Suspended t, d1) \<Rightarrow>
                (rest, L\<lparr>core := d1, tasks := tasks L @ [t],
                         dispatched := dispatched L @ [(c, l)]\<rparr>)
            | (Proceeds, d1) \<Rightarrow>
                adrain P c rest (L\<lparr>core := d1, dispatched := dispatched L @ [(c, l)]\<rparr>)
            | (Returned, d1) \<Rightarrow>
                (rest, L\<lparr>core := d1, dispatched := dispatched L @ [(c, l)]\<rparr>)))"
proof -
  have "takeWhile (\<lambda>x. x \<noteq> CHR 0x0A) (l @ CHR 0x0A # rest) = l"
    using assms by (induction l) auto
  then have idx: "newlineIdx (l @ CHR 0x0A # rest) = length l"
    by (simp add: newlineIdx_def)
  show ?thesis
    by (subst adrain.simps) (simp add: idx split: prod.splits progress.splits)
qed

lemma begin_line_execute:
  "parseCommand P l = ParseSuccess cmd \<Longrightarrow>
   isLaunched (manager d) \<or> action cmd = ''launch'' \<or> action cmd = ''close'' \<Longrightarrow>
     begin_line P c l d = (Suspended (AwaitExecute c cmd), d)"
  by (auto simp: begin_line_def)

lemma begin_line_launch:
  "parseCommand P l = ParseSuccess cmd \<Longrightarrow> \<not> isLaunched (manager d) \<Longrightarrow>
   action cmd \<noteq> ''launch'' \<Longrightarrow> action cmd \<noteq> ''close'' \<Longrightarrow>
   script (snd (manager d)) = [] \<Longrightarrow>
     begin_line P c l d =
       (Suspended (AwaitBrowser c cmd (Inr (next_handle (snd (manager d))))),
        d\<lparr>manager :=
            (fst (manager d),
             (snd (manager d))\<lparr>next_handle := Suc (next_handle (snd (manager d))),
                               pw_log := pw_log (snd (manager d)) @ [PwLaunch chromium True]\<rparr>)\<rparr>)"
  by (simp add: begin_line_def pw_create_def auto_launch_def select_launcher_def headless_of_def)

lemma resume_browser:
  "script (snd (manager d)) = [] \<Longrightarrow>
   resume P (AwaitBrowser c cmd (Inr b)) d =
     (Suspended (AwaitContext c cmd (Inr (next_handle (snd (manager d))))),
      d\<lparr>manager :=
          ((fst (manager d))\<lparr>browser := Some b\<rparr>,
           (snd (manager d))\<lparr>next_handle := Suc (next_handle (snd (manager d))),
                             pw_log := pw_log (snd (manager d)) @ [PwNewContext b (1280, 720)]\<rparr>)\<rparr>)"
  by (simp add: resume_def pw_create_def auto_launch_def viewport_of_def)

lemma resume_context:
  "script (snd (manager d)) = [] \<Longrightarrow>
   resume P (AwaitContext c cmd (Inr x)) d =
     (Suspended (AwaitPage c cmd (Inr (next_handle (snd (manager d))))),
      d\<lparr>manager :=
          ((fst (manager d))\<lparr>bcontext := Some x\<rparr>,
           (snd (manager d))\<lparr>next_handle := Suc (next_handle (snd (manager d))),
                             pw_log := pw_log (snd (manager d)) @ [PwNewPage x]\<rparr>)\<rparr>)"
  by (simp add: resume_def pw_create_def)

lemma resume_page:
  "resume P (AwaitPage c cmd (Inr p)) d =
     (Suspended (AwaitExecute c cmd),
      d\<lparr>manager := ((fst (manager d))\<lparr>page := Some p\<rparr>, snd (manager d))\<rparr>)"
  by (simp add: resume_def)

lemma resume_execute:
  "executeCommand P cmd (manager d) = (Inr resp, m) \<Longrightarrow>
   resume P (AwaitExecute c cmd) d =
     (if action cmd = ''close''
      then (Returned, schedule_shutdown (socket_write P c resp (d\<lparr>manager := m\<rparr>)))
      else (Proceeds, socket_write P c resp (d\<lparr>manager := m\<rparr>)))"
  by (simp add: resume_def)

lemma arun_Cons: "arun P L (e # es) = arun P (astep P L e) es"
  by (simp add: arun_def)

lemma arun_Nil: "arun P L [] = L"
  by (simp add: arun_def)

lemma arun_append: "arun P L (es @ fs) = arun P (arun P L es) fs"
  by (simp add: arun_def)

lemmas async_eval =
  arun_Cons arun_Nil astep_def start_loop_def go_on_def fresh_daemon_fields
  adrain_line adrain_no_newline sample_frames_plain sample_frames_not_blank
  begin_line_launch begin_line_execute resume_browser resume_context resume_page
  resume_execute sample_parseCommand sample_actions isLaunched_def initial_state_def
  sample_execute_snapshot sample_execute_content sample_execute_close
  socket_write_fields schedule_shutdown_fields close_calls_def

lemma two_launches_pending:
  "arun sample_protocol (start_loop fresh_daemon) back_to_back =
   \<lparr>core = fresh_daemon\<lparr>buffers := (buffers fresh_daemon)(0 := []),
        manager := (initial_state, \<lparr>script = [], next_handle = 2,
            pw_log = [PwLaunch chromium True, PwLaunch chromium True]\<rparr>)\<rparr>,
     tasks = [AwaitBrowser 0 snapshot_cmd (Inr 0), AwaitBrowser 0 content_cmd (Inr 1)],
     received = (\<lambda>c. [])(0 := snapshot_frame @ CHR 0x0A # content_frame @ [CHR 0x0A]),
     dispatched = [(0, snapshot_frame), (0, content_frame)]\<rparr>"
  unfolding back_to_back_def by (simp add: async_eval)

lemma begin_line_launch_log:
  assumes "parseCommand P l = ParseSuccess cmd" "\<not> isLaunched (manager d)"
    "action cmd \<noteq> ''launch''" "action cmd \<noteq> ''close''"
  shows "pw_log (snd (manager (snd (begin_line P c l d)))) =
           pw_log (snd (manager d)) @ [PwLaunch chromium True]"
    "fst (manager (snd (begin_line P c l d))) = fst (manager d)"
    "exited (snd (begin_line P c l d)) = exited d"
    "\<exists>out. fst (begin_line P c l d) = Suspended (AwaitBrowser c cmd out)"
  using assms
  by (auto simp: begin_line_def pw_create_def auto_launch_def select_launcher_def
      headless_of_def split: list.splits option.splits prod.splits)

lemma arrives_action_command:
  assumes "exited (core L) = None" "buffers (core L) c = []"
    "\<not> isLaunched (manager (core L))"
    "parseCommand P l = ParseSuccess cmd" "action cmd \<noteq> ''launch''" "action cmd \<noteq> ''close''"
    "\<not> blank l" "CHR 0x0A \<notin> set l"
  shows "pw_log (snd (manager (core (astep P L (Arrives c (l @ [CHR 0x0A])))))) =
           pw_log (snd (manager (core L))) @ [PwLaunch chromium True]"
    "\<not> isLaunched (manager (core (astep P L (Arrives c (l @ [CHR 0x0A])))))"
    "exited (core (astep P L (Arrives c (l @ [CHR 0x0A])))) = None"
    "buffers (core (astep P L (Arrives c (l @ [CHR 0x0A])))) c = []"
proof -
  let ?L0 = "L\<lparr>core := (core L)\<lparr>buffers := (buffers (core L))(c := l @ [CHR 0x0A])\<rparr>,
                received := (received L)(c := received L c @ l @ [CHR 0x0A])\<rparr>"
  let ?d0 = "(core L)\<lparr>buffers := (buffers (core L))(c := l @ [CHR 0x0A])\<rparr>"
  have nl: "\<not> isLaunched (manager ?d0)" using assms(3) by simp
  obtain x d1 where bl: "begin_line P c l ?d0 = (x, d1)" by (cases "begin_line P c l ?d0")
  from begin_line_launch_log [OF assms(4) nl assms(5,6), of c] bl obtain out where
    f: "pw_log (snd (manager d1)) = pw_log (snd (manager (core L))) @ [PwLaunch chromium True]"
      "fst (manager d1) = fst (manager (core L))" "exited d1 = exited (core L)"
      "x = Suspended (AwaitBrowser c cmd out)"
    by auto
  have st: "astep P L (Arrives c (l @ [CHR 0x0A])) =
      L\<lparr>core := d1\<lparr>buffers := (buffers d1)(c := [])\<rparr>,
        tasks := tasks L @ [AwaitBrowser c cmd out],
        received := (received L)(c := received L c @ l @ [CHR 0x0A]),
        dispatched := dispatched L @ [(c, l)]\<rparr>"
    using assms(1,2,7,8) bl f(4) by (simp add: astep_def go_on_def adrain_line)
  show "pw_log (snd (manager (core (astep P L (Arrives c (l @ [CHR 0x0A])))))) =
           pw_log (snd (manager (core L))) @ [PwLaunch chromium True]"
    "\<not> isLaunched (manager (core (astep P L (Arrives c (l @ [CHR 0x0A])))))"
    "exited (core (astep P L (Arrives c (l @ [CHR 0x0A])))) = None"
    "buffers (core (astep P L (Arrives c (l @ [CHR 0x0A])))) c = []"
    using f assms(1,3) unfolding st by (simp_all add: isLaunched_def)
qed

text \<open>
  Two action commands in two reads on a daemon that has no browser, the second read
  handled before anything has settled: the launcher is called twice, whatever the
  protocol functions and whatever the outcomes of the calls.
\<close>

lemma two_reads_two_launches:
  assumes "exited (core L) = None" "buffers (core L) c = []"
    "\<not> isLaunched (manager (core L))"
    "parseCommand P l1 = ParseSuccess c1" "action c1 \<noteq> ''launch''" "action c1 \<noteq> ''close''"
    "\<not> blank l1" "CHR 0x0A \<notin> set l1"
    "parseCommand P l2 = ParseSuccess c2" "action c2 \<noteq> ''launch''" "action c2 \<noteq> ''close''"
    "\<not> blank l2" "CHR 0x0A \<notin> set l2"
  shows "pw_log (snd (manager (core
           (arun P L [Arrives c (l1 @ [CHR 0x0A]), Arrives c (l2 @ [CHR 0x0A])])))) =
         pw_log (snd (manager (core L))) @ [PwLaunch chromium True, PwLaunch chromium True]"
proof -
  let ?L1 = "astep P L (Arrives c (l1 @ [CHR 0x0A]))"
  note a = arrives_action_command [OF assms(1-8)]
  from arrives_action_command(1) [OF a(3,4,2) assms(9-13)] a(1)
  show ?thesis by (simp add: arun_Cons arun_Nil)
qed






lemma dispatched_on_snoc:
  "length (dispatched_on c0 (L\<lparr>dispatched := dispatched L @ [(c, l)]\<rparr>)) =
     length (dispatched_on c0 L) + (if c = c0 then 1 else 0)"
  by (simp add: dispatched_on_def)












lemma begin_line_quiet: "quiet d (snd (begin_line P c l d))"
  by (auto simp: begin_line_def quiet_def socket_write_def lifecycle_def
      split: parse_result.splits prod.splits)

lemma resume_quiet: "quiet d (snd (resume P t d))"
  by (cases t)
     (auto simp: resume_def quiet_def socket_write_def schedule_shutdown_def lifecycle_def
        split: sum.splits prod.splits)

lemma adrain_quiet: "quiet (core L) (core (snd (adrain P c b L)))"
proof (induction P c b L rule: adrain.induct)
  case (1 P c buffer L)
  let ?line = "take (newlineIdx buffer) buffer"
  let ?rest = "drop (Suc (newlineIdx buffer)) buffer"
  show ?case
  proof (cases "CHR 0x0A \<in> set buffer")
    case False
    then show ?thesis by (simp add: adrain_no_newline quiet_refl)
  next
    case nl: True
    show ?thesis
    proof (cases "blank ?line")
      case True
      have "adrain P c buffer L = adrain P c ?rest L"
        using nl True by (subst adrain.simps) simp
      with "1.IH"(1) [OF nl True] show ?thesis by simp
    next
      case nb: False
      obtain x d1 where bl: "begin_line P c ?line (core L) = (x, d1)"
        by (cases "begin_line P c ?line (core L)")
      have q: "quiet (core L) d1" using begin_line_quiet [of "core L" P c ?line] bl by simp
      show ?thesis
      proof (cases x)
        case (Suspended t)
        have "adrain P c buffer L =
            (?rest, L\<lparr>core := d1, tasks := tasks L @ [t],
                      dispatched := dispatched L @ [(c, ?line)]\<rparr>)"
          using nl nb bl Suspended by (subst adrain.simps) simp
        with q show ?thesis by simp
      next
        case Proceeds
        let ?L1 = "L\<lparr>core := d1, dispatched := dispatched L @ [(c, ?line)]\<rparr>"
        have "adrain P c buffer L = adrain P c ?rest ?L1"
          using nl nb bl Proceeds by (subst adrain.simps) simp
        with "1.IH"(2) [OF nl nb bl [symmetric] Proceeds] q show ?thesis
          by (auto intro: quiet_trans)
      next
        case Returned
        have "adrain P c buffer L =
            (?rest, L\<lparr>core := d1, dispatched := dispatched L @ [(c, ?line)]\<rparr>)"
          using nl nb bl Returned by (subst adrain.simps) simp
        with q show ?thesis by simp
      qed
    qed
  qed
qed

lemma settled_go_on:
  assumes "settled d" "exited d = None" "quiet d (core L)"
  shows "settled (core (go_on P c L))"
proof -
  obtain b L1 where ad: "adrain P c (buffers (core L) c) L = (b, L1)"
    by (cases "adrain P c (buffers (core L) c) L")
  with adrain_quiet [of L P c "buffers (core L) c"] have "quiet (core L) (core L1)" by simp
  with assms(3) have "quiet d (core L1)" by (rule quiet_trans)
  from settled_quiet [OF assms(1,2) this] show ?thesis
    by (simp add: go_on_def ad)
qed

lemma quiet_buffers: "quiet d (d\<lparr>buffers := bs\<rparr>)"
  by (simp add: quiet_def)

lemma settled_astep: "settled (core L) \<Longrightarrow> settled (core (astep P L e))"
proof (cases "exited (core L) = None")
  case False
  assume "settled (core L)"
  with False show ?thesis by (simp add: astep_def)
next
  case live: True
  assume s: "settled (core L)"
  show ?thesis
  proof (cases e)
    case (Arrives c chunk)
    from settled_go_on [OF s live, of _ P c] live Arrives show ?thesis
      by (simp add: astep_def quiet_buffers)
  next
    case (Settles i)
    show ?thesis
    proof (cases "i < length (tasks L)")
      case False
      with s live Settles show ?thesis by (simp add: astep_def)
    next
      case i: True
      obtain x d1 where rs: "resume P (tasks L ! i) (core L) = (x, d1)"
        by (cases "resume P (tasks L ! i) (core L)")
      with resume_quiet [of "core L" P "tasks L ! i"] have q: "quiet (core L) d1" by simp
      from settled_quiet [OF s live q, of "buffers d1"] have s1: "settled d1" by simp
      show ?thesis
      proof (cases x)
        case (Suspended t')
        with s1 live Settles i rs show ?thesis by (simp add: astep_def)
      next
        case Proceeds
        have "settled (core (go_on P (task_conn (tasks L ! i))
            (L\<lparr>core := d1, tasks := take i (tasks L) @ drop (Suc i) (tasks L)\<rparr>)))"
          using q by (intro settled_go_on [OF s live]) simp
        with live Settles i rs Proceeds show ?thesis by (simp add: astep_def)
      next
        case Returned
        with s1 live Settles i rs show ?thesis by (simp add: astep_def)
      qed
    qed
  next
    case Fires
    with settled_step [OF s, of P TimerFires] live show ?thesis by (simp add: astep_def)
  next
    case Interrupt
    with settled_step [OF s, of P Signal] live show ?thesis by (simp add: astep_def)
  next
    case Resumes
    with settled_step [OF s, of P ShutdownResumes] live show ?thesis by (simp add: astep_def)
  qed
qed

lemma settled_arun: "settled (core L) \<Longrightarrow> settled (core (arun P L es))"
  unfolding arun_def by (induction es arbitrary: L) (simp_all add: settled_astep)

text \<open>
  The invariant of the supervisor holds in the loop with suspended handlers as well: the
  two guards of the shutdown are tested and set without an await in between.
\<close>

lemma shutdown_at_most_once_overlapping:
  "(exited (core (arun P (start_loop (startDaemon p f sc)) es)) = None
      \<and> lifecycle (trace (core (arun P (start_loop (startDaemon p f sc)) es))) = [CleanupSocket]
    \<or> exited (core (arun P (start_loop (startDaemon p f sc)) es)) = Some 0
      \<and> lifecycle (trace (core (arun P (start_loop (startDaemon p f sc)) es))) =
          [CleanupSocket, ServerClose, CleanupSocket, Exit 0])
   \<and> pending (core (arun P (start_loop (startDaemon p f sc)) es)) \<le> 1"
proof -
  have "settled (core (start_loop (startDaemon p f sc)))"
    by (simp add: start_loop_def settled_start)
  from settled_arun [OF this, of P es] show ?thesis
    by (auto simp: settled_def split: if_splits)
qed

lemma process_line_finish:
  "process_line P c l d =
     (case begin_line P c l d of
        (Suspended t, d1) \<Rightarrow> finish P t d1
      | (Proceeds, d1) \<Rightarrow> (Continue, d1)
      | (Returned, d1) \<Rightarrow> (Return, d1))"
  by (cases "manager d")
     (auto simp: process_line_def begin_line_def launch_def open_browser_def isLaunched_def
        finish_browser_def finish_context_def finish_page_def finish_execute_def Let_def
        split: parse_result.splits prod.splits sum.splits option.splits)

lemma go_on_put: "go_on P c L = put_buffer c (adrain P c (buffers (core L) c) L)"
  by (simp add: go_on_def put_buffer_def split: prod.splits)

lemma step_Data_set:
  "exited d = None \<Longrightarrow>
     step P d (Data c chunk) = set_buffer c (drain P c (buffers d c @ chunk) d)"
  by (simp add: step_def on_data_def set_buffer_def split: prod.splits)

lemma finish_resume:
  "finish P t d =
     (case resume P t d of
        (Suspended t', d1) \<Rightarrow> finish P t' d1
      | (Proceeds, d1) \<Rightarrow> (Continue, d1)
      | (Returned, d1) \<Rightarrow> (Return, d1))"
  by (cases t)
     (auto simp: resume_def finish_browser_def finish_context_def finish_page_def
        finish_execute_def split: sum.splits prod.splits)

lemma resume_stage: "resume P t d = (Suspended t', d1) \<Longrightarrow> stage t' < stage t"
  by (cases t) (auto simp: resume_def split: sum.splits prod.splits if_splits)

lemma resume_exited: "exited (snd (resume P t d)) = exited d"
  using resume_quiet [of d P t] by (simp add: quiet_def)

lemma begin_line_exited: "exited (snd (begin_line P c l d)) = exited d"
  using begin_line_quiet [of d P c l] by (simp add: quiet_def)

lemma arun_replicate_add:
  "arun P L (replicate (n + m) e) = arun P (arun P L (replicate n e)) (replicate m e)"
  by (simp add: arun_def replicate_add)

lemma settle_one_handler:
  assumes "tasks L = [t]" "exited (core L) = None"
  shows "\<exists>n L2. arun P L (replicate n (Settles 0)) =
            (case fst (finish P t (core L)) of
               Continue \<Rightarrow> go_on P (task_conn t) L2 | Return \<Rightarrow> L2)
          \<and> tasks L2 = [] \<and> core L2 = snd (finish P t (core L))"
  using assms
proof (induction "stage t" arbitrary: t L rule: less_induct)
  case less
  obtain x d1 where rs: "resume P t (core L) = (x, d1)" by (cases "resume P t (core L)")
  have ex: "exited d1 = None" using resume_exited [of P t "core L"] rs less.prems(2) by simp
  have fr: "finish P t (core L) =
      (case x of Suspended t' \<Rightarrow> finish P t' d1 | Proceeds \<Rightarrow> (Continue, d1)
       | Returned \<Rightarrow> (Return, d1))"
    by (subst finish_resume) (simp add: rs)
  show ?case
  proof (cases x)
    case (Suspended t')
    let ?L1 = "L\<lparr>core := d1, tasks := [t']\<rparr>"
    have st: "astep P L (Settles 0) = ?L1"
      using less.prems rs Suspended by (simp add: astep_def)
    from resume_stage [OF rs [unfolded Suspended]] have lt: "stage t' < stage t" .
    from resume_Suspended [OF rs [unfolded Suspended]] have tc: "task_conn t' = task_conn t"
      by simp
    from less.hyps [OF lt, of ?L1] ex obtain n L2 where
      n: "arun P ?L1 (replicate n (Settles 0)) =
            (case fst (finish P t' (core ?L1)) of
               Continue \<Rightarrow> go_on P (task_conn t') L2 | Return \<Rightarrow> L2)"
        "tasks L2 = []" "core L2 = snd (finish P t' (core ?L1))"
      by auto
    show ?thesis
      using n [unfolded tc] Suspended
      by (intro exI [of _ "Suc n"] exI [of _ L2]) (simp add: arun_Cons st fr)
  next
    case Proceeds
    let ?L1 = "L\<lparr>core := d1, tasks := []\<rparr>"
    have st: "astep P L (Settles 0) = go_on P (task_conn t) ?L1"
      using less.prems rs Proceeds by (simp add: astep_def)
    show ?thesis
      using Proceeds
      by (intro exI [of _ "Suc 0"] exI [of _ ?L1]) (simp add: arun_Cons arun_Nil st fr)
  next
    case Returned
    let ?L1 = "L\<lparr>core := d1, tasks := []\<rparr>"
    have st: "astep P L (Settles 0) = ?L1"
      using less.prems rs Returned by (simp add: astep_def)
    show ?thesis
      using Returned
      by (intro exI [of _ "Suc 0"] exI [of _ ?L1]) (simp add: arun_Cons arun_Nil st fr)
  qed
qed

lemma finish_buffers_upd:
  "finish P t (d\<lparr>buffers := X\<rparr>) = (fst (finish P t d), (snd (finish P t d))\<lparr>buffers := X\<rparr>)"
  by (cases t)
     (auto simp: finish_browser_def finish_context_def finish_page_def finish_execute_def
        socket_write_def schedule_shutdown_def split: sum.splits prod.splits)

lemma process_line_buffers_upd:
  "process_line P c l (d\<lparr>buffers := X\<rparr>) =
     (fst (process_line P c l d), (snd (process_line P c l d))\<lparr>buffers := X\<rparr>)"
  by (auto simp: process_line_def socket_write_def schedule_shutdown_def
      split: parse_result.splits prod.splits option.splits sum.splits)

lemma process_line_buffers: "buffers (snd (process_line P c l d)) = buffers d"
  by (auto simp: process_line_def socket_write_def schedule_shutdown_def
      split: parse_result.splits prod.splits option.splits sum.splits)

lemma drain_buffers: "buffers (snd (drain P c b d)) = buffers d"
proof (induction P c b d rule: drain.induct)
  case (1 P c buffer d)
  let ?line = "take (newlineIdx buffer) buffer"
  let ?rest = "drop (Suc (newlineIdx buffer)) buffer"
  show ?case
  proof (cases "CHR 0x0A \<in> set buffer")
    case False
    then show ?thesis by (simp add: drain_no_newline)
  next
    case nl: True
    show ?thesis
    proof (cases "blank ?line")
      case True
      have "drain P c buffer d = drain P c ?rest d"
        using nl True by (subst drain.simps) simp
      with "1.IH"(1) [OF nl True] show ?thesis by simp
    next
      case nb: False
      obtain x y where pl: "process_line P c ?line d = (x, y)"
        by (cases "process_line P c ?line d")
      have q: "buffers y = buffers d" using process_line_buffers [of P c ?line d] pl by simp
      show ?thesis
      proof (cases x)
        case Continue
        have "drain P c buffer d = drain P c ?rest y"
          using nl nb pl Continue by (subst drain.simps) simp
        with "1.IH"(2) [OF nl nb pl [symmetric] Continue] q show ?thesis by simp
      next
        case Return
        have "drain P c buffer d = (?rest, y)"
          using nl nb pl Return by (subst drain.simps) simp
        with q show ?thesis by simp
      qed
    qed
  qed
qed

lemma drain_buffers_upd:
  "drain P c b (d\<lparr>buffers := X\<rparr>) =
     (fst (drain P c b d), (snd (drain P c b d))\<lparr>buffers := X\<rparr>)"
proof (induction P c b d rule: drain.induct)
  case (1 P c buffer d)
  let ?line = "take (newlineIdx buffer) buffer"
  let ?rest = "drop (Suc (newlineIdx buffer)) buffer"
  show ?case
  proof (cases "CHR 0x0A \<in> set buffer")
    case False
    then show ?thesis by (simp add: drain_no_newline)
  next
    case nl: True
    show ?thesis
    proof (cases "blank ?line")
      case True
      have a: "drain P c buffer d = drain P c ?rest d"
        using nl True by (subst drain.simps) simp
      have b: "drain P c buffer (d\<lparr>buffers := X\<rparr>) = drain P c ?rest (d\<lparr>buffers := X\<rparr>)"
        using nl True by (subst drain.simps) simp
      from "1.IH"(1) [OF nl True] show ?thesis by (simp add: a b)
    next
      case nb: False
      obtain x y where pl: "process_line P c ?line d = (x, y)"
        by (cases "process_line P c ?line d")
      have pl': "process_line P c ?line (d\<lparr>buffers := X\<rparr>) = (x, y\<lparr>buffers := X\<rparr>)"
        by (simp add: process_line_buffers_upd pl)
      show ?thesis
      proof (cases x)
        case Continue
        have a: "drain P c buffer d = drain P c ?rest y"
          using nl nb pl Continue by (subst drain.simps) simp
        have b: "drain P c buffer (d\<lparr>buffers := X\<rparr>) = drain P c ?rest (y\<lparr>buffers := X\<rparr>)"
          using nl nb pl' Continue by (subst drain.simps) simp
        from "1.IH"(2) [OF nl nb pl [symmetric] Continue] show ?thesis by (simp add: a b)
      next
        case Return
        have a: "drain P c buffer d = (?rest, y)"
          using nl nb pl Return by (subst drain.simps) simp
        have b: "drain P c buffer (d\<lparr>buffers := X\<rparr>) = (?rest, y\<lparr>buffers := X\<rparr>)"
          using nl nb pl' Return by (subst drain.simps) simp
        show ?thesis by (simp add: a b)
      qed
    qed
  qed
qed

lemma finish_buffers: "buffers (snd (finish P t d)) = buffers d"
  by (cases t)
     (auto simp: finish_browser_def finish_context_def finish_page_def finish_execute_def
        socket_write_def schedule_shutdown_def split: sum.splits prod.splits)

lemma finish_exited: "exited (snd (finish P t d)) = exited d"
  by (cases t)
     (auto simp: finish_browser_def finish_context_def finish_page_def finish_execute_def
        socket_write_def schedule_shutdown_def split: sum.splits prod.splits)

lemma handler_not_overlapped:
  assumes "tasks L = []" "exited (core L) = None"
  shows "\<exists>n. tasks (arun P (put_buffer c (adrain P c b L)) (replicate n (Settles 0))) = []
       \<and> core (arun P (put_buffer c (adrain P c b L)) (replicate n (Settles 0))) =
           set_buffer c (drain P c b (core L))"
  using assms
proof (induction b arbitrary: L rule: length_induct)
  case (1 buffer)
  let ?line = "take (newlineIdx buffer) buffer"
  let ?rest = "drop (Suc (newlineIdx buffer)) buffer"
  let ?d = "core L"
  show ?case
  proof (cases "CHR 0x0A \<in> set buffer")
    case False
    then show ?thesis
      using "1.prems"
      by (intro exI [of _ 0])
         (simp add: adrain_no_newline drain_no_newline put_buffer_def set_buffer_def arun_def)
  next
    case nl: True
    then have shorter: "length ?rest < length buffer"
      by (auto dest: length_pos_if_in_set)
    show ?thesis
    proof (cases "blank ?line")
      case True
      have a: "adrain P c buffer L = adrain P c ?rest L"
        using nl True by (subst adrain.simps) simp
      have b: "drain P c buffer ?d = drain P c ?rest ?d"
        using nl True by (subst drain.simps) simp
      from "1.IH" [rule_format, OF shorter "1.prems"] show ?thesis
        unfolding a b .
    next
      case nb: False
      obtain x d1 where bl: "begin_line P c ?line ?d = (x, d1)"
        by (cases "begin_line P c ?line ?d")
      have bd: "buffers d1 = buffers ?d"
        using begin_line_buffers [of P c ?line ?d] bl by simp
      have ex: "exited d1 = None"
        using begin_line_exited [of P c ?line ?d] bl "1.prems"(2) by simp
      have pl: "process_line P c ?line ?d =
          (case x of Suspended t \<Rightarrow> finish P t d1 | Proceeds \<Rightarrow> (Continue, d1)
           | Returned \<Rightarrow> (Return, d1))"
        by (subst process_line_finish) (simp add: bl)
      show ?thesis
      proof (cases x)
        case Proceeds
        let ?L1 = "L\<lparr>core := d1, dispatched := dispatched L @ [(c, ?line)]\<rparr>"
        have a: "adrain P c buffer L = adrain P c ?rest ?L1"
          using nl nb bl Proceeds by (subst adrain.simps) simp
        have b: "drain P c buffer ?d = drain P c ?rest d1"
          using nl nb pl Proceeds by (subst drain.simps) simp
        from "1.IH" [rule_format, OF shorter, of ?L1] "1.prems"(1) ex show ?thesis
          unfolding a b by simp
      next
        case Returned
        with bl begin_line_not_Returned show ?thesis by blast
      next
        case (Suspended t)
        let ?B = "(buffers ?d)(c := ?rest)"
        let ?L1 = "L\<lparr>core := d1\<lparr>buffers := ?B\<rparr>, tasks := [t],
                      dispatched := dispatched L @ [(c, ?line)]\<rparr>"
        have a: "put_buffer c (adrain P c buffer L) = ?L1"
          using nl nb bl Suspended "1.prems"(1) bd
          by (subst adrain.simps) (simp add: put_buffer_def)
        from begin_line_Suspended [OF bl [unfolded Suspended]] have tc: "task_conn t = c"
          by simp
        obtain f y where fy: "finish P t d1 = (f, y)" by (cases "finish P t d1")
        have fy': "finish P t (core ?L1) = (f, y\<lparr>buffers := ?B\<rparr>)"
          by (simp add: finish_buffers_upd fy)
        have yb: "buffers y = buffers ?d"
          using finish_buffers [of P t d1] fy bd by simp
        have ey: "exited y = None"
          using finish_exited [of P t d1] fy ex by simp
        have plf: "process_line P c ?line ?d = (f, y)"
          using pl Suspended fy by simp
        from settle_one_handler [of ?L1 t P] ex obtain n L2 where
          n: "arun P ?L1 (replicate n (Settles 0)) =
                (case f of Continue \<Rightarrow> go_on P c L2 | Return \<Rightarrow> L2)"
            "tasks L2 = []" "core L2 = y\<lparr>buffers := ?B\<rparr>"
          unfolding fy' tc by auto
        show ?thesis
        proof (cases f)
          case Return
          have b: "drain P c buffer ?d = (?rest, y)"
            using nl nb plf Return by (subst drain.simps) simp
          show ?thesis
            using n Return
            by (intro exI [of _ n]) (simp add: a b set_buffer_def yb)
        next
          case Continue
          have b: "drain P c buffer ?d = drain P c ?rest y"
            using nl nb plf Continue by (subst drain.simps) simp
          have g: "go_on P c L2 = put_buffer c (adrain P c ?rest L2)"
            by (simp add: go_on_put n(3))
          from "1.IH" [rule_format, OF shorter, of L2] n(2,3) ey obtain m where
            m: "tasks (arun P (put_buffer c (adrain P c ?rest L2)) (replicate m (Settles 0))) = []"
              "core (arun P (put_buffer c (adrain P c ?rest L2)) (replicate m (Settles 0))) =
                 set_buffer c (drain P c ?rest (y\<lparr>buffers := ?B\<rparr>))"
            by auto
          obtain b' z where dz: "drain P c ?rest y = (b', z)" by (cases "drain P c ?rest y")
          have bz: "buffers z = buffers ?d"
            using drain_buffers [of P c ?rest y] dz yb by simp
          have sb: "set_buffer c (drain P c ?rest (y\<lparr>buffers := ?B\<rparr>)) =
              set_buffer c (drain P c ?rest y)"
            by (simp add: drain_buffers_upd dz set_buffer_def bz)
          have run: "arun P ?L1 (replicate (n + m) (Settles 0)) =
              arun P (put_buffer c (adrain P c ?rest L2)) (replicate m (Settles 0))"
            by (simp add: arun_replicate_add n(1) Continue g)
          show ?thesis
            using m
            by (intro exI [of _ "n + m"]) (simp only: a b run sb simp_thms)
        qed
      qed
    qed
  qed
qed

text \<open>
  \<open>step\<close> on a data event is the loop with suspended handlers in which every promise of
  the handler settles before any other event: the same daemon is reached, and no
  handler is left suspended.
\<close>

lemma step_is_handler_not_overlapped:
  assumes "tasks L = []"
  shows "\<exists>n. tasks (arun P L (Arrives c chunk # replicate n (Settles 0))) = []
       \<and> core (arun P L (Arrives c chunk # replicate n (Settles 0))) =
           step P (core L) (Data c chunk)"
proof (cases "exited (core L) = None")
  case False
  have "arun P L (Arrives c chunk # replicate 0 (Settles 0)) = L"
    using False by (simp add: arun_def astep_def)
  with False assms show ?thesis
    by (intro exI [of _ 0]) (simp add: step_exited)
next
  case live: True
  let ?d = "core L"
  let ?b = "buffers ?d c @ chunk"
  let ?L0 = "L\<lparr>core := ?d\<lparr>buffers := (buffers ?d)(c := ?b)\<rparr>,
                received := (received L)(c := received L c @ chunk)\<rparr>"
  have st: "astep P L (Arrives c chunk) = put_buffer c (adrain P c ?b ?L0)"
    using live by (simp add: astep_def go_on_put)
  from handler_not_overlapped [of ?L0 P c ?b] assms live obtain n where
    n: "tasks (arun P (put_buffer c (adrain P c ?b ?L0)) (replicate n (Settles 0))) = []"
      "core (arun P (put_buffer c (adrain P c ?b ?L0)) (replicate n (Settles 0))) =
         set_buffer c (drain P c ?b (core ?L0))"
    by auto
  obtain b' z where dz: "drain P c ?b ?d = (b', z)" by (cases "drain P c ?b ?d")
  have bz: "buffers z = buffers ?d" using drain_buffers [of P c ?b ?d] dz by simp
  have "set_buffer c (drain P c ?b (core ?L0)) = set_buffer c (drain P c ?b ?d)"
    by (simp add: drain_buffers_upd dz set_buffer_def bz)
  with n live show ?thesis
    by (intro exI [of _ n]) (simp add: arun_Cons st step_Data_set)
qed

section \<open>The claims about the connection handler and the shutdown\<close>




text \<open>
  The implicit launch in a handler that is not overlapped. A command that is neither
  launch nor close, arriving while the browser is absent, makes the handler call \<open>launch\<close>
  once with the options of \<open>auto_launch\<close> before anything else: if that launch raises,
  the command is not executed and an error is written; if it returns, Playwright was
  asked for a headless chromium, a context of 1280 by 720 and a page, and the command is
  executed on the manager so acquired. Of two such commands in one read, the second
  finds the browser present (when the first left it so): one acquisition.
\<close>

lemma acquisition_once_in_one_read:
  assumes "parseCommand P l1 = ParseSuccess c1" "action c1 \<noteq> ''launch''"
    "action c1 \<noteq> ''close''"
    "parseCommand P l2 = ParseSuccess c2" "action c2 \<noteq> ''launch''"
    "action c2 \<noteq> ''close''"
    "\<not> blank l1" "CHR 0x0A \<notin> set l1" "\<not> blank l2" "CHR 0x0A \<notin> set l2"
    "\<not> isLaunched (manager d)"
  shows "(launch auto_launch (manager d) = (Some msg, m) \<longrightarrow>
            process_line P c l1 d =
              (Continue,
               socket_write P c (errorResponse P ''error'' msg) (d\<lparr>manager := m\<rparr>)))
    \<and> (fst (launch auto_launch (manager d)) = None \<longrightarrow>
          pw_log (snd (snd (launch auto_launch (manager d)))) =
            pw_log (snd (manager d)) @
              [PwLaunch chromium True,
               PwNewContext (next_handle (snd (manager d))) (1280, 720),
               PwNewPage (next_handle (snd (manager d)) + 1)]
          \<and> manager (snd (process_line P c l1 d)) =
              snd (executeCommand P c1 (snd (launch auto_launch (manager d)))))
    \<and> (fst (launch auto_launch (manager d)) = None
        \<and> isLaunched (snd (executeCommand P c1 (snd (launch auto_launch (manager d))))) \<longrightarrow>
          manager (snd (drain P c (l1 @ CHR 0x0A # l2 @ [CHR 0x0A]) d)) =
            snd (executeCommand P c2
                  (snd (executeCommand P c1 (snd (launch auto_launch (manager d)))))))"
proof (intro conjI impI)
  assume "launch auto_launch (manager d) = (Some msg, m)"
  then show "process_line P c l1 d =
      (Continue, socket_write P c (errorResponse P ''error'' msg) (d\<lparr>manager := m\<rparr>))"
    using assms by (simp add: process_line_acquire_fails)
next
  assume ok: "fst (launch auto_launch (manager d)) = None"
  show "pw_log (snd (snd (launch auto_launch (manager d)))) =
            pw_log (snd (manager d)) @
              [PwLaunch chromium True,
               PwNewContext (next_handle (snd (manager d))) (1280, 720),
               PwNewPage (next_handle (snd (manager d)) + 1)]"
    using assms(11) ok by (rule auto_launch_log)
  show "manager (snd (process_line P c l1 d)) =
      snd (executeCommand P c1 (snd (launch auto_launch (manager d))))"
    using assms ok by (simp add: process_line_manager_acquire)
next
  assume h: "fst (launch auto_launch (manager d)) = None
        \<and> isLaunched (snd (executeCommand P c1 (snd (launch auto_launch (manager d)))))"
  obtain x d1 where p1: "process_line P c l1 d = (x, d1)" by (cases "process_line P c l1 d")
  have x: "x = Continue"
    and m1: "manager d1 = snd (executeCommand P c1 (snd (launch auto_launch (manager d))))"
    using process_line_manager_acquire [OF assms(1,2,3,11), of c] h p1 by simp_all
  obtain y d2 where p2: "process_line P c l2 d1 = (y, d2)" by (cases "process_line P c l2 d1")
  have y: "y = Continue"
    and m2: "manager d2 = snd (executeCommand P c2 (manager d1))"
    using process_line_manager_launched [OF assms(4,5,6), of d1 c] h p2 m1 by simp_all
  have "drain P c (l1 @ CHR 0x0A # l2 @ [CHR 0x0A]) d = ([], d2)"
    using assms(7-10) by (simp add: drain_line drain_no_newline p1 x p2 y)
  then show "manager (snd (drain P c (l1 @ CHR 0x0A # l2 @ [CHR 0x0A]) d)) =
            snd (executeCommand P c2
                  (snd (executeCommand P c1 (snd (launch auto_launch (manager d))))))"
    by (simp add: m2 m1)
qed

text \<open>
  Claim C3 asks for exactly one implicit acquisition when two action commands arrive
  back to back on a fresh daemon. The code does otherwise when the second command
  arrives in a read of its own while the handler of the first waits for the launcher:
  \<open>state.browser\<close> is assigned only when that call has settled (browser.ts line 63), so
  the guard of the second handler finds no browser either and the launcher is called a
  second time. When all promises have settled, both commands are answered, two browsers
  were launched, and the manager holds the second one; the first browser, its context
  and its page were never closed and no field refers to them.
\<close>

theorem overlapping_commands_launch_twice:
  "pw_log (snd (manager (core (arun sample_protocol (start_loop fresh_daemon) back_to_back)))) =
     [PwLaunch chromium True, PwLaunch chromium True]
   \<and> tasks (arun sample_protocol (start_loop fresh_daemon)
        (back_to_back @ replicate 8 (Settles 0))) = []
   \<and> manager (core (arun sample_protocol (start_loop fresh_daemon)
        (back_to_back @ replicate 8 (Settles 0)))) =
      (\<lparr>browser = Some 1, bcontext = Some 4, page = Some 5\<rparr>,
       \<lparr>script = [], next_handle = 6,
         pw_log = [PwLaunch chromium True, PwLaunch chromium True,
                   PwNewContext 0 (1280, 720), PwNewPage 2,
                   PwNewContext 1 (1280, 720), PwNewPage 4]\<rparr>)
   \<and> trace (core (arun sample_protocol (start_loop fresh_daemon)
        (back_to_back @ replicate 8 (Settles 0)))) =
      [CleanupSocket,
       SocketWrite 0
         (serializeResponse sample_protocol
            (SuccessResponse ''a1'' (JObj [(''done'', JStr ''snapshot'')])) @ [CHR 0x0A]),
       SocketWrite 0
         (serializeResponse sample_protocol
            (SuccessResponse ''a2'' (JObj [(''done'', JStr ''content'')])) @ [CHR 0x0A])]"
  unfolding arun_append two_launches_pending
  by (simp add: async_eval eval_nat_numeral)

text \<open>
  Claim C4. A close command, handled by a live daemon that is not yet shutting down:
  \<open>executeCommand\<close> runs on the manager, its Response is written to the socket, and the
  timer of 100 milliseconds is set, in this order, with the process alive, listening
  and its files in place; when the timer fires the server is closed, the socket and
  the marker are removed, and the process exits with status 0, in this order.
\<close>

theorem close_then_shutdown_in_order:
  assumes "parseCommand P l = ParseSuccess cmd" "action cmd = ''close''"
    "executeCommand P cmd (manager d) = (Inr resp, m)"
    "\<not> blank l" "CHR 0x0A \<notin> set l" "buffers d c @ chunk = l @ [CHR 0x0A]"
    "exited d = None" "\<not> shuttingDown d"
  shows "exited (run P d [Data c chunk]) = None
    \<and> manager (run P d [Data c chunk]) = m
    \<and> files (run P d [Data c chunk]) = files d
    \<and> listening (run P d [Data c chunk]) = listening d
    \<and> trace (run P d [Data c chunk]) =
        trace d @ [SocketWrite c (serializeResponse P resp @ [CHR 0x0A]), SetTimeout 100]
    \<and> exited (run P d [Data c chunk, TimerFires]) = Some 0
    \<and> listening (run P d [Data c chunk, TimerFires]) = False
    \<and> files (run P d [Data c chunk, TimerFires]) =
        (files d)(SOCKET_PATH := None, PID_FILE := None)
    \<and> trace (run P d [Data c chunk, TimerFires]) =
        trace d @ [SocketWrite c (serializeResponse P resp @ [CHR 0x0A]), SetTimeout 100,
                   ServerClose, CleanupSocket, Exit 0]"
proof -
  define d1 where "d1 = schedule_shutdown (socket_write P c resp (d\<lparr>manager := m\<rparr>))"
  have dr: "drain P c (buffers d c @ chunk) d = ([], d1)"
    unfolding d1_def assms(6) using assms(1-5) by (simp add: drain_close_line)
  define d2 where "d2 = d1\<lparr>buffers := (buffers d1)(c := [])\<rparr>"
  have s1: "step P d (Data c chunk) = d2"
    using assms(7) by (simp add: step_data dr d2_def)
  have f1: "exited d2 = None" "manager d2 = m" "files d2 = files d"
    "listening d2 = listening d" "timers d2 = Suc (timers d)"
    "trace d2 = trace d @ [SocketWrite c (serializeResponse P resp @ [CHR 0x0A]), SetTimeout 100]"
    using assms(7,8)
    by (simp_all add: d2_def d1_def schedule_shutdown_fields socket_write_fields)
  have s2: "step P d2 TimerFires = timer_callback (d2\<lparr>timers := timers d\<rparr>)"
    by (simp add: step_def f1)
  have r1: "run P d [Data c chunk] = d2"
    by (simp add: run_Cons run_Nil s1)
  have r2: "run P d [Data c chunk, TimerFires] = timer_callback (d2\<lparr>timers := timers d\<rparr>)"
    by (simp add: run_Cons run_Nil s1 s2)
  show ?thesis
    unfolding r1 r2 by (simp add: f1 timer_callback_def cleanupSocket_eq)
qed

theorem close_then_shutdown_in_order_witness:
  "manager (run sample_protocol
              (run sample_protocol fresh_daemon [Data 0 (snapshot_frame @ [CHR 0x0A])])
              [Data 0 (close_frame @ [CHR 0x0A])]) =
     (\<lparr>browser = None, bcontext = None, page = None\<rparr>,
      \<lparr>script = [], next_handle = 3,
        pw_log = [PwLaunch chromium True, PwNewContext 0 (1280, 720), PwNewPage 1,
                  PwClosePage 2, PwCloseContext 1, PwCloseBrowser 0]\<rparr>)
   \<and> trace (run sample_protocol
              (run sample_protocol fresh_daemon [Data 0 (snapshot_frame @ [CHR 0x0A])])
              [Data 0 (close_frame @ [CHR 0x0A]), TimerFires]) =
     [CleanupSocket,
      SocketWrite 0
        (serializeResponse sample_protocol
           (SuccessResponse ''a1'' (JObj [(''done'', JStr ''snapshot'')])) @ [CHR 0x0A]),
      SocketWrite 0
        (serializeResponse sample_protocol
           (SuccessResponse ''b2'' (JObj [(''closed'', JBool True)])) @ [CHR 0x0A]),
      SetTimeout 100, ServerClose, CleanupSocket, Exit 0]
   \<and> exited (run sample_protocol
              (run sample_protocol fresh_daemon [Data 0 (snapshot_frame @ [CHR 0x0A])])
              [Data 0 (close_frame @ [CHR 0x0A]), TimerFires]) = Some 0
   \<and> files (run sample_protocol
              (run sample_protocol fresh_daemon [Data 0 (snapshot_frame @ [CHR 0x0A])])
              [Data 0 (close_frame @ [CHR 0x0A]), TimerFires]) SOCKET_PATH = None
   \<and> files (run sample_protocol
              (run sample_protocol fresh_daemon [Data 0 (snapshot_frame @ [CHR 0x0A])])
              [Data 0 (close_frame @ [CHR 0x0A]), TimerFires]) PID_FILE = None
   \<and> serializeResponse sample_protocol
        (SuccessResponse ''b2'' (JObj [(''closed'', JBool True)])) = close_response_text"
proof -
  let ?d = "run sample_protocol fresh_daemon [Data 0 (snapshot_frame @ [CHR 0x0A])]"
  let ?s3 = "\<lparr>browser = Some 0, bcontext = Some 1, page = Some 2\<rparr>"
  let ?w3 = "\<lparr>script = [], next_handle = 3,
                pw_log = [PwLaunch chromium True, PwNewContext 0 (1280, 720),
                          PwNewPage 1]\<rparr>"
  let ?m4 = "(\<lparr>browser = None, bcontext = None, page = None\<rparr>,
      \<lparr>script = [], next_handle = 3,
        pw_log = [PwLaunch chromium True, PwNewContext 0 (1280, 720), PwNewPage 1,
                  PwClosePage 2, PwCloseContext 1, PwCloseBrowser 0]\<rparr>)"
  have ex: "executeCommand sample_protocol close_cmd (manager ?d) =
      (Inr (SuccessResponse ''b2'' (JObj [(''closed'', JBool True)])), ?m4)"
    unfolding sample_launched_daemon(4) sample_execute_close
    by (simp add: close_calls_def initial_state_def)
  have bf: "buffers ?d 0 @ (close_frame @ [CHR 0x0A]) = close_frame @ [CHR 0x0A]"
    by (simp add: sample_launched_daemon(3))
  have sd: "\<not> shuttingDown ?d"
    by (simp add: sample_launched_daemon(2))
  note th = close_then_shutdown_in_order [OF sample_parseCommand(1) sample_actions(1) ex
      sample_frames_not_blank(1) sample_frames_plain(1) bf sample_launched_daemon(1) sd]
  from th show ?thesis
    by (simp add: sample_launched_daemon(5,6) paths_distinct sample_close_response_text)
qed

text \<open>
  Claim C5, as amended. When a close command is followed by more input on the same
  connection, the close Response is written first and the timer is set after it; what
  arrived in the same read after the close line is left in the buffer, and that read
  writes nothing for it; the process is alive until the timer fires, and once a process
  has exited no event is handled any more. Until then a line that is not a close
  command is handled as it would be without the shutdown flag.
\<close>

theorem close_answered_rest_left:
  assumes "parseCommand P l = ParseSuccess cmd" "action cmd = ''close''"
    "executeCommand P cmd (manager d) = (Inr resp, m)"
    "\<not> blank l" "CHR 0x0A \<notin> set l" "buffers d c @ chunk = l @ CHR 0x0A # rest"
    "exited d = None"
  shows "trace (step P d (Data c chunk)) =
        trace d @ SocketWrite c (serializeResponse P resp @ [CHR 0x0A])
          # (if shuttingDown d then [] else [SetTimeout 100])
    \<and> buffers (step P d (Data c chunk)) c = rest
    \<and> exited (step P d (Data c chunk)) = None
    \<and> (exited d' \<noteq> None \<longrightarrow> run P d' es = d')
    \<and> (\<not> is_close P l' \<longrightarrow>
          process_line P c' l' (d''\<lparr>shuttingDown := True\<rparr>) =
            (fst (process_line P c' l' d''),
             (snd (process_line P c' l' d''))\<lparr>shuttingDown := True\<rparr>))"
proof -
  define d1 where "d1 = schedule_shutdown (socket_write P c resp (d\<lparr>manager := m\<rparr>))"
  have dr: "drain P c (buffers d c @ chunk) d = (rest, d1)"
    unfolding d1_def assms(6) using assms(1-5) by (simp add: drain_close_line)
  have s1: "step P d (Data c chunk) = d1\<lparr>buffers := (buffers d1)(c := rest)\<rparr>"
    using assms(7) by (simp add: step_data dr)
  have f1: "exited d1 = None"
    "trace d1 = trace d @ SocketWrite c (serializeResponse P resp @ [CHR 0x0A])
          # (if shuttingDown d then [] else [SetTimeout 100])"
    using assms(7)
    by (simp_all add: d1_def schedule_shutdown_fields socket_write_fields)
  show ?thesis
    by (simp add: s1 f1 run_exited process_line_ignores_flag)
qed

theorem close_answered_rest_left_witness:
  "trace (step sample_protocol fresh_daemon
            (Data 0 (close_frame @ CHR 0x0A # snapshot_frame @ [CHR 0x0A]))) =
     [CleanupSocket,
      SocketWrite 0
        (serializeResponse sample_protocol
           (SuccessResponse ''b2'' (JObj [(''closed'', JBool True)])) @ [CHR 0x0A]),
      SetTimeout 100]
   \<and> buffers (step sample_protocol fresh_daemon
            (Data 0 (close_frame @ CHR 0x0A # snapshot_frame @ [CHR 0x0A]))) 0 =
       snapshot_frame @ [CHR 0x0A]
   \<and> run sample_protocol (fresh_daemon\<lparr>exited := Some 0\<rparr>)
         [Data 0 (snapshot_frame @ [CHR 0x0A])] = fresh_daemon\<lparr>exited := Some 0\<rparr>
   \<and> process_line sample_protocol 0 snapshot_frame (fresh_daemon\<lparr>shuttingDown := True\<rparr>) =
       (fst (process_line sample_protocol 0 snapshot_frame fresh_daemon),
        (snd (process_line sample_protocol 0 snapshot_frame fresh_daemon))
          \<lparr>shuttingDown := True\<rparr>)"
proof -
  have ex: "executeCommand sample_protocol close_cmd (manager fresh_daemon) =
      (Inr (SuccessResponse ''b2'' (JObj [(''closed'', JBool True)])),
       initial_state, \<lparr>script = [], next_handle = 0, pw_log = []\<rparr>)"
    unfolding fresh_daemon_fields sample_execute_close
    by (simp add: close_calls_def initial_state_def)
  have bf: "buffers fresh_daemon 0 @ (close_frame @ CHR 0x0A # snapshot_frame @ [CHR 0x0A]) =
      close_frame @ CHR 0x0A # snapshot_frame @ [CHR 0x0A]"
    by (simp add: fresh_daemon_fields)
  have dead: "exited (fresh_daemon\<lparr>exited := Some 0\<rparr>) \<noteq> None" by simp
  note th = close_answered_rest_left [OF sample_parseCommand(1) sample_actions(1) ex
      sample_frames_not_blank(1) sample_frames_plain(1) bf fresh_daemon_fields(8),
      of "fresh_daemon\<lparr>exited := Some 0\<rparr>" "[Data 0 (snapshot_frame @ [CHR 0x0A])]"
        snapshot_frame 0 fresh_daemon]
  from th dead sample_is_close(2) show ?thesis
    by (simp add: fresh_daemon_fields)
qed

text \<open>
  Claim C5 as it was stated fails. A second command arrives in a read of its own after
  the close command and before the timer fires. A second close is executed at once and
  answered with a success Response; for a snapshot command the handler acquires a
  browser again, executes the command and writes a success Response for it. (Time is
  not modelled: the second run needs the launch and the command to end within the 100
  milliseconds, the first needs no launch.)
\<close>

theorem later_command_after_close_succeeds:
  "trace (run sample_protocol fresh_daemon
            [Data 0 (close_frame @ [CHR 0x0A]), Data 0 (second_close_frame @ [CHR 0x0A])]) =
     [CleanupSocket,
      SocketWrite 0
        (serializeResponse sample_protocol
           (SuccessResponse ''b2'' (JObj [(''closed'', JBool True)])) @ [CHR 0x0A]),
      SetTimeout 100,
      SocketWrite 0
        (serializeResponse sample_protocol
           (SuccessResponse ''b3'' (JObj [(''closed'', JBool True)])) @ [CHR 0x0A])]
   \<and> success (SuccessResponse ''b3'' (JObj [(''closed'', JBool True)]))
   \<and> trace (run sample_protocol fresh_daemon
            [Data 0 (close_frame @ [CHR 0x0A]), Data 0 (snapshot_frame @ [CHR 0x0A])]) =
     [CleanupSocket,
      SocketWrite 0
        (serializeResponse sample_protocol
           (SuccessResponse ''b2'' (JObj [(''closed'', JBool True)])) @ [CHR 0x0A]),
      SetTimeout 100,
      SocketWrite 0
        (serializeResponse sample_protocol
           (SuccessResponse ''a1'' (JObj [(''done'', JStr ''snapshot'')])) @ [CHR 0x0A])]
   \<and> success (SuccessResponse ''a1'' (JObj [(''done'', JStr ''snapshot'')]))"
proof -
  let ?w0 = "\<lparr>script = [], next_handle = 0, pw_log = []\<rparr>"
  let ?r1 = "SuccessResponse ''b2'' (JObj [(''closed'', JBool True)])"
  let ?r2 = "SuccessResponse ''a1'' (JObj [(''done'', JStr ''snapshot'')])"
  let ?r3 = "SuccessResponse ''b3'' (JObj [(''closed'', JBool True)])"
  define d1 where "d1 = schedule_shutdown
      (socket_write sample_protocol 0 ?r1
         (fresh_daemon\<lparr>manager := snd (close (manager fresh_daemon))\<rparr>))"
  define d2 where "d2 = d1\<lparr>buffers := (buffers d1)(0 := [])\<rparr>"
  have s1: "step sample_protocol fresh_daemon (Data 0 (close_frame @ [CHR 0x0A])) = d2"
    by (simp add: step_data fresh_daemon_fields sample_close_line d2_def d1_def)
  have m2: "manager d2 = (initial_state, ?w0)" "exited d2 = None" "buffers d2 0 = []"
    "shuttingDown d2"
    by (simp_all add: d2_def d1_def schedule_shutdown_fields socket_write_fields
        fresh_daemon_fields close_total close_calls_def initial_state_def)
  have t2: "trace d2 =
     [CleanupSocket, SocketWrite 0 (serializeResponse sample_protocol ?r1 @ [CHR 0x0A]),
      SetTimeout 100]"
    by (simp add: d2_def d1_def schedule_shutdown_fields socket_write_fields
        fresh_daemon_fields)
  have s2: "trace (step sample_protocol d2 (Data 0 (snapshot_frame @ [CHR 0x0A]))) =
      trace d2 @ [SocketWrite 0 (serializeResponse sample_protocol ?r2 @ [CHR 0x0A])]"
    by (simp add: step_data m2 drain_line drain_no_newline sample_frames_plain
        sample_frames_not_blank sample_snapshot_fresh [OF m2(1)] socket_write_fields)
  have s3: "trace (step sample_protocol d2 (Data 0 (second_close_frame @ [CHR 0x0A]))) =
      trace d2 @ [SocketWrite 0 (serializeResponse sample_protocol ?r3 @ [CHR 0x0A])]"
    by (simp add: step_data m2 sample_second_close_line schedule_shutdown_fields
        socket_write_fields)
  show ?thesis
    by (simp add: run_Cons run_Nil s1 s2 s3 t2)
qed

text \<open>
  Claim C6. From the start of a daemon on, for every sequence of data events, signals,
  timer firings and resumptions of a suspended shutdown: either the process is alive and
  no shutdown step has run, or it has exited with status 0 after exactly one run of
  the sequence server close, cleanup, exit; and at no time is more than one shutdown
  pending. (The first cleanup in the trace is the one \<open>startDaemon\<close> begins with.)
\<close>

theorem shutdown_at_most_once:
  "(exited (run P (startDaemon p f sc) es) = None
      \<and> lifecycle (trace (run P (startDaemon p f sc) es)) = [CleanupSocket]
    \<or> exited (run P (startDaemon p f sc) es) = Some 0
      \<and> lifecycle (trace (run P (startDaemon p f sc) es)) =
          [CleanupSocket, ServerClose, CleanupSocket, Exit 0])
   \<and> pending (run P (startDaemon p f sc) es) \<le> 1"
  using settled_run [OF settled_start, of P p f sc es]
  by (auto simp: settled_def split: if_splits)

theorem shutdown_at_most_once_witness:
  "exited (run sample_protocol (startDaemon 4242 Map.empty [])
             [Data 0 (close_frame @ [CHR 0x0A]), Signal, TimerFires, ShutdownResumes]) = Some 0
   \<and> lifecycle (trace (run sample_protocol (startDaemon 4242 Map.empty [])
             [Data 0 (close_frame @ [CHR 0x0A]), Signal, TimerFires, ShutdownResumes])) =
       [CleanupSocket, ServerClose, CleanupSocket, Exit 0]"
proof -
  let ?es = "[Data 0 (close_frame @ [CHR 0x0A]), Signal, TimerFires, ShutdownResumes]"
  define d1 where "d1 = schedule_shutdown
      (socket_write sample_protocol 0 (SuccessResponse ''b2'' (JObj [(''closed'', JBool True)]))
         (fresh_daemon\<lparr>manager := snd (close (manager fresh_daemon))\<rparr>))"
  define d2 where "d2 = d1\<lparr>buffers := (buffers d1)(0 := [])\<rparr>"
  have s1: "step sample_protocol fresh_daemon (Data 0 (close_frame @ [CHR 0x0A])) = d2"
    by (simp add: step_data fresh_daemon_fields sample_close_line d2_def d1_def)
  have f2: "exited d2 = None" "shuttingDown d2" "timers d2 = Suc 0"
    by (simp_all add: d2_def d1_def schedule_shutdown_fields socket_write_fields
        fresh_daemon_fields)
  have s2: "step sample_protocol d2 Signal = d2"
    by (simp add: step_def f2 shutdown_def)
  have s3: "exited (step sample_protocol d2 TimerFires) = Some 0"
    by (simp add: step_def f2 timer_callback_def)
  have ex: "exited (run sample_protocol fresh_daemon ?es) = Some 0"
    by (simp add: run_Cons run_Nil s1 s2 step_exited s3)
  from shutdown_at_most_once [of sample_protocol 4242 Map.empty "[]" ?es] ex
  show ?thesis
    by (simp add: fresh_daemon_def)
qed

text \<open>
  Claim C8. With the codec as the specification describes it, a line that is not
  well-formed JSON gets an error Response with \<open>success\<close> false, the fallback id
  \<open>unknown\<close> and the codec's message; nothing else of the daemon changes (the manager is
  not touched, \<open>executeCommand\<close> is not called), and the loop goes on with the rest of the
  buffer.
\<close>

theorem malformed_line_answered_and_skipped:
  assumes "parse l = None" "\<not> blank l" "CHR 0x0A \<notin> set l"
  shows "drain (spec_protocol parse stringify execute) c (l @ CHR 0x0A # rest) d =
     drain (spec_protocol parse stringify execute) c rest
       (d\<lparr>trace := trace d @
          [SocketWrite c
             (stringify
                (JObj [(''id'', JStr ''unknown''), (''success'', JBool False),
                       (''error'',
                        JStr ''MalformedPayload: the frame is not well-formed JSON'')])
              @ [CHR 0x0A])]\<rparr>)
    \<and> success (errorResponse (spec_protocol parse stringify execute) ''unknown''
          ''MalformedPayload: the frame is not well-formed JSON'') = False"
proof -
  let ?P = "spec_protocol parse stringify execute"
  have pf: "parseCommand ?P l =
      ParseFailure None ''MalformedPayload: the frame is not well-formed JSON''"
    using assms(1) by (simp add: spec_protocol_def parseCommand_spec_def)
  have dr: "drain ?P c (l @ CHR 0x0A # rest) d =
      drain ?P c rest
        (socket_write ?P c
           (errorResponse ?P ''unknown''
              ''MalformedPayload: the frame is not well-formed JSON'') d)"
    using assms(2,3) by (simp add: drain_line process_line_parse_failure [OF pf])
  have sel: "errorResponse ?P = errorResponse_spec"
    "serializeResponse ?P = serializeResponse_spec stringify"
    by (simp_all add: spec_protocol_def)
  show ?thesis
    unfolding dr
    by (simp add: socket_write_def sel errorResponse_spec_def serializeResponse_spec_def)
qed

theorem malformed_line_answered_and_skipped_witness:
  "sample_parse garbage_frame = None
   \<and> drain (spec_protocol sample_parse show_json sample_execute) 0
        (garbage_frame @ [CHR 0x0A]) fresh_daemon =
      ([], fresh_daemon\<lparr>trace :=
             [CleanupSocket,
              SocketWrite 0
                (show_json
                   (JObj [(''id'', JStr ''unknown''), (''success'', JBool False),
                          (''error'',
                           JStr ''MalformedPayload: the frame is not well-formed JSON'')])
                 @ [CHR 0x0A])]\<rparr>)"
proof -
  from malformed_line_answered_and_skipped [where parse = sample_parse
      and l = garbage_frame and stringify = show_json and execute = sample_execute
      and c = 0 and rest = "[]" and d = fresh_daemon,
      OF sample_parse_frames(4) sample_frames_not_blank(4) sample_frames_plain(4)]
  show ?thesis
    by (simp add: sample_parse_frames drain_no_newline fresh_daemon_fields)
qed

end
